theory Spec2Isabelle
  imports Main
begin

section \<open>Azure resource listing of kops (package \<open>azure\<close>)\<close>

text \<open>
  The Go file lists every Azure resource of a cluster, turns each into a
  \<open>resources.Resource\<close> descriptor and stores the descriptors in a map keyed by
  \<open>Type + ":" + ID\<close>. The embedding follows the Go text function by function.

  \<^item> A Go pointer is an \<open>option\<close>: \<open>None\<close> is \<open>nil\<close>, and \<open>*p\<close> on \<open>nil\<close> is the
    outcome \<open>Inl NilDereference\<close> (the run-time panic).
  \<^item> A Go \<open>(value, error)\<close> pair is a sum: \<open>Inl e\<close> is \<open>return nil, err\<close>.
  \<^item> A Go \<open>map[string]*string\<close> of tags is the list of its entries in the order in
    which \<open>range\<close> visits them; the keys of a Go map are distinct.
  \<^item> The map of descriptors that \<open>listResourcesAzure\<close> returns is a HOL map.
\<close>

subsection \<open>Outcomes\<close>

datatype error = Error string | NilDereference

definition deref :: "'a option \<Rightarrow> error + 'a" where
  "deref p = (case p of None \<Rightarrow> Inl NilDereference | Some v \<Rightarrow> Inr v)"

subsection \<open>The cloud objects the code reads\<close>

text \<open>
  The Azure SDK structs are declared outside the files at hand. Each is a record of
  the fields the code reads, a pointer field being an \<open>option\<close>. A security group
  carries tags as every other listed object does; \<open>listNetworkSecurityGroups\<close> does not
  read them, and the field is there so that the owner of a listed security group can be
  stated.
\<close>

type_synonym tags = "(string \<times> string option) list"

record Group =
  Group_Name :: "string option"
  Group_Tags :: tags

record SecurityGroup =
  SecurityGroup_ID :: "string option"
  SecurityGroup_Name :: "string option"
  SecurityGroup_Tags :: tags

record Subnet =
  Subnet_Name :: "string option"
  Subnet_NetworkSecurityGroup :: "SecurityGroup option"

record VirtualNetwork =
  VirtualNetwork_Name :: "string option"
  VirtualNetwork_Tags :: tags
  VirtualNetwork_Subnets :: "Subnet list option"

record RouteTable =
  RouteTable_Name :: "string option"
  RouteTable_Tags :: tags

record SubResource =
  SubResource_ID :: "string option"

record APIEntityReference =
  APIEntityReference_ID :: "string option"

record IPConfiguration =
  IPConfiguration_Subnet :: "APIEntityReference option"
  IPConfiguration_LoadBalancerBackendAddressPools :: "SubResource list option"

record NetworkConfiguration =
  NetworkConfiguration_IPConfigurations :: "IPConfiguration list option"

record NetworkProfile =
  NetworkProfile_NetworkInterfaceConfigurations :: "NetworkConfiguration list option"

record VMProfile =
  VMProfile_NetworkProfile :: "NetworkProfile option"

record Identity =
  Identity_PrincipalID :: "string option"

record VirtualMachineScaleSet =
  VMSS_Name :: "string option"
  VMSS_Tags :: tags
  VMSS_Identity :: "Identity option"
  VMSS_VirtualMachineProfile :: "VMProfile option"

record DataDisk =
  DataDisk_Name :: "string option"

record StorageProfile =
  StorageProfile_DataDisks :: "DataDisk list option"

record VirtualMachineScaleSetVM =
  VM_StorageProfile :: "StorageProfile option"

record Disk =
  Disk_Name :: "string option"
  Disk_Tags :: tags

record RoleAssignment =
  RoleAssignment_Name :: "string option"
  RoleAssignment_PrincipalID :: "string option"

record PublicIPAddress =
  PublicIPAddress_ID :: "string option"
  PublicIPAddress_Name :: "string option"
  PublicIPAddress_Tags :: tags

record FrontendIPConfiguration =
  FrontendIP_PublicIPAddress :: "PublicIPAddress option"

record LoadBalancer =
  LoadBalancer_Name :: "string option"
  LoadBalancer_Tags :: tags
  LoadBalancer_FrontendIPConfigurations :: "FrontendIPConfiguration list option"

subsection \<open>The resource descriptor\<close>

text \<open>
  \<open>Obj\<close> is the pointer to the cloud object, \<open>Deleter\<close> the method or closure the
  descriptor carries (the closure of a subnet holds the name of its network).
  A field a struct literal leaves out has Go's zero value: \<open>false\<close>, \<open>nil\<close>.
\<close>

datatype obj =
    ObjGroup Group
  | ObjVirtualNetwork VirtualNetwork
  | ObjSubnet Subnet
  | ObjSecurityGroup SecurityGroup
  | ObjRouteTable RouteTable
  | ObjVMScaleSet VirtualMachineScaleSet
  | ObjDisk Disk
  | ObjRoleAssignment RoleAssignment
  | ObjLoadBalancer LoadBalancer
  | ObjPublicIPAddress PublicIPAddress

datatype deleter =
    deleteResourceGroup
  | deleteVirtualNetwork
  | deleteSubnet string
  | deleteNetworkSecurityGroup
  | deleteRouteTable
  | deleteVMScaleSet
  | deleteDisk
  | deleteRoleAssignment
  | deleteLoadBalancer
  | deletePublicIPAddress

record Resource =
  Obj :: obj
  Type :: string
  ID :: string
  Name :: string
  Deleter :: deleter
  Blocks :: "string list"
  Shared :: bool
  Done :: bool

subsection \<open>The cluster, the cloud and the imported package\<close>

record ClusterInfo =
  ClusterInfo_Name :: string
  AzureResourceGroupName :: string
  AzureResourceGroupShared :: bool
  AzureNetworkShared :: bool
  AzureRouteTableShared :: bool

text \<open>
  The cloud is the answer of each \<open>List\<close> call of the \<open>AzureCloud\<close> clients, as a
  function of the call's arguments (the context apart): \<open>Inl msg\<close> is the error the
  call returned.
\<close>

record AzureCloud =
  ResourceGroup_List :: "string \<Rightarrow> string + Group list"
  VirtualNetwork_List :: "string \<Rightarrow> string + VirtualNetwork list"
  Subnet_List :: "string \<Rightarrow> string \<Rightarrow> string + Subnet list"
  NetworkSecurityGroup_List :: "string \<Rightarrow> string + SecurityGroup list"
  RouteTable_List :: "string \<Rightarrow> string + RouteTable list"
  VMScaleSet_List :: "string \<Rightarrow> string + VirtualMachineScaleSet list"
  VMScaleSetVM_List :: "string \<Rightarrow> string \<Rightarrow> string + VirtualMachineScaleSetVM list"
  Disk_List :: "string \<Rightarrow> string + Disk list"
  RoleAssignment_List :: "string \<Rightarrow> string + RoleAssignment list"
  LoadBalancer_List :: "string \<Rightarrow> string + LoadBalancer list"
  PublicIPAddress_List :: "string \<Rightarrow> string + PublicIPAddress list"

record SubnetID =
  VirtualNetworkName :: string
  SubnetName :: string

text \<open>
  The constant \<open>TagClusterName\<close> and the four parsers of resource IDs belong to the
  imported package \<open>cloudup/azure\<close>, which is not among the files at hand: they are
  parameters of the model. A parser returns the error's text or, of the parsed ID,
  the fields the code reads.
\<close>

record azure_pkg =
  TagClusterName :: string
  ParseSubnetID :: "string \<Rightarrow> string + SubnetID"
  ParseLoadBalancerID :: "string \<Rightarrow> string + string"
  ParseNetworkSecurityGroupID :: "string \<Rightarrow> string + string"
  ParsePublicIPAddressID :: "string \<Rightarrow> string + string"

record resourceGetter =
  cloud :: AzureCloud
  clusterInfo :: ClusterInfo

subsection \<open>Constants and small functions\<close>

definition typeResourceGroup :: string where "typeResourceGroup = ''ResourceGroup''"
definition typeVirtualNetwork :: string where "typeVirtualNetwork = ''VirtualNetwork''"
definition typeNetworkSecurityGroup :: string where "typeNetworkSecurityGroup = ''NetworkSecurityGroup''"
definition typeSubnet :: string where "typeSubnet = ''Subnet''"
definition typeRouteTable :: string where "typeRouteTable = ''RouteTable''"
definition typeVMScaleSet :: string where "typeVMScaleSet = ''VMScaleSet''"
definition typeDisk :: string where "typeDisk = ''Disk''"
definition typeRoleAssignment :: string where "typeRoleAssignment = ''RoleAssignment''"
definition typeLoadBalancer :: string where "typeLoadBalancer = ''LoadBalancer''"
definition typePublicIPAddress :: string where "typePublicIPAddress = ''PublicIPAddress''"

definition resourceGroupName :: "resourceGetter \<Rightarrow> string" where
  "resourceGroupName g = AzureResourceGroupName (clusterInfo g)"

definition toKey :: "string \<Rightarrow> string \<Rightarrow> string" where
  "toKey rtype ident = rtype @ '':'' @ ident"

text \<open>
  \<open>isOwnedByCluster\<close>: the loop over the tags. Go's \<open>&&\<close> evaluates \<open>*v\<close> only when
  the key is \<open>TagClusterName\<close>.
\<close>

fun isOwnedByCluster :: "azure_pkg \<Rightarrow> resourceGetter \<Rightarrow> tags \<Rightarrow> error + bool" where
  "isOwnedByCluster az g [] = Inr False"
| "isOwnedByCluster az g ((k, v) # rest) =
     (if k = TagClusterName az then
        (case v of
           None \<Rightarrow> Inl NilDereference
         | Some s \<Rightarrow>
             if s = ClusterInfo_Name (clusterInfo g) then Inr True
             else isOwnedByCluster az g rest)
      else isOwnedByCluster az g rest)"

subsection \<open>Loops\<close>

text \<open>
  Every listing loop has one shape: the body runs on each element in order, the
  first error (or panic) ends the function with that error and no resources, and
  what the body yields is appended to the slice \<open>rs\<close>. A body that does
  \<open>continue\<close> yields nothing.
\<close>

fun appendEach :: "('a \<Rightarrow> error + 'b list) \<Rightarrow> 'a list \<Rightarrow> error + 'b list" where
  "appendEach body [] = Inr []"
| "appendEach body (x # xs) =
     (case body x of
        Inl e \<Rightarrow> Inl e
      | Inr ys \<Rightarrow>
          (case appendEach body xs of
             Inl e \<Rightarrow> Inl e
           | Inr zs \<Rightarrow> Inr (ys @ zs)))"

text \<open>
  A Go \<open>map[string]struct{}\<close> used as a set of names: the list of its keys, a key
  entering once. \<open>range\<close> over it visits the keys in an order Go leaves open; the
  model takes the order of first insertion.
\<close>

definition addName :: "string \<Rightarrow> string list \<Rightarrow> string list" where
  "addName n ns = (if n \<in> set ns then ns else ns @ [n])"

subsection \<open>Resource groups\<close>

definition toResourceGroupResource :: "resourceGetter \<Rightarrow> Group \<Rightarrow> error + Resource" where
  "toResourceGroupResource g rg =
     (case deref (Group_Name rg) of
        Inl e \<Rightarrow> Inl e
      | Inr n \<Rightarrow>
          Inr \<lparr>Obj = ObjGroup rg, Type = typeResourceGroup, ID = n, Name = n,
               Deleter = deleteResourceGroup, Blocks = [],
               Shared = AzureResourceGroupShared (clusterInfo g), Done = False\<rparr>)"

definition listResourceGroups :: "azure_pkg \<Rightarrow> resourceGetter \<Rightarrow> error + Resource list" where
  "listResourceGroups az g =
     (case ResourceGroup_List (cloud g) [] of
        Inl msg \<Rightarrow> Inl (Error msg)
      | Inr rgs \<Rightarrow>
          appendEach (\<lambda>rg.
            case isOwnedByCluster az g (Group_Tags rg) of
              Inl e \<Rightarrow> Inl e
            | Inr owned \<Rightarrow>
                if \<not> owned then Inr []
                else (case toResourceGroupResource g rg of
                        Inl e \<Rightarrow> Inl e
                      | Inr r \<Rightarrow> Inr [r])) rgs)"

subsection \<open>Virtual networks and subnets\<close>

fun vnetNSGs :: "azure_pkg \<Rightarrow> Subnet list \<Rightarrow> string list \<Rightarrow> error + string list" where
  "vnetNSGs az [] nsgs = Inr nsgs"
| "vnetNSGs az (sn # sns) nsgs =
     (case Subnet_NetworkSecurityGroup sn of
        None \<Rightarrow> vnetNSGs az sns nsgs
      | Some sg \<Rightarrow>
          (case deref (SecurityGroup_ID sg) of
             Inl e \<Rightarrow> Inl e
           | Inr i \<Rightarrow>
               (case ParseNetworkSecurityGroupID az i of
                  Inl msg \<Rightarrow> Inl (Error (''parsing network security group ID: '' @ msg))
                | Inr n \<Rightarrow> vnetNSGs az sns (addName n nsgs))))"

definition toVirtualNetworkResource ::
  "azure_pkg \<Rightarrow> resourceGetter \<Rightarrow> VirtualNetwork \<Rightarrow> error + Resource" where
  "toVirtualNetworkResource az g vnet =
     (case vnetNSGs az (case VirtualNetwork_Subnets vnet of None \<Rightarrow> [] | Some sns \<Rightarrow> sns) [] of
        Inl e \<Rightarrow> Inl e
      | Inr nsgs \<Rightarrow>
          (case deref (VirtualNetwork_Name vnet) of
             Inl e \<Rightarrow> Inl e
           | Inr n \<Rightarrow>
               Inr \<lparr>Obj = ObjVirtualNetwork vnet, Type = typeVirtualNetwork, ID = n, Name = n,
                    Deleter = deleteVirtualNetwork,
                    Blocks = toKey typeResourceGroup (resourceGroupName g)
                             # map (toKey typeNetworkSecurityGroup) nsgs,
                    Shared = AzureNetworkShared (clusterInfo g), Done = False\<rparr>))"

definition toSubnetResource :: "resourceGetter \<Rightarrow> Subnet \<Rightarrow> string \<Rightarrow> error + Resource" where
  "toSubnetResource g subnet vnetName =
     (case deref (Subnet_Name subnet) of
        Inl e \<Rightarrow> Inl e
      | Inr n \<Rightarrow>
          Inr \<lparr>Obj = ObjSubnet subnet, Type = typeSubnet, ID = n, Name = n,
               Deleter = deleteSubnet vnetName,
               Blocks = [toKey typeVirtualNetwork vnetName,
                         toKey typeResourceGroup (resourceGroupName g)],
               Shared = AzureNetworkShared (clusterInfo g), Done = False\<rparr>)"

definition listSubnets :: "resourceGetter \<Rightarrow> string \<Rightarrow> error + Resource list" where
  "listSubnets g vnetName =
     (case Subnet_List (cloud g) (resourceGroupName g) vnetName of
        Inl msg \<Rightarrow> Inl (Error msg)
      | Inr subnets \<Rightarrow>
          appendEach (\<lambda>sn.
            case toSubnetResource g sn vnetName of
              Inl e \<Rightarrow> Inl e
            | Inr r \<Rightarrow> Inr [r]) subnets)"

text \<open>
  The body of the loop of \<open>listVirtualNetworksAndSubnets\<close>: what one network adds
  to the slice.
\<close>

definition vnetAndSubnets ::
  "azure_pkg \<Rightarrow> resourceGetter \<Rightarrow> VirtualNetwork \<Rightarrow> error + Resource list" where
  "vnetAndSubnets az g vnet =
     (case isOwnedByCluster az g (VirtualNetwork_Tags vnet) of
        Inl e \<Rightarrow> Inl e
      | Inr owned \<Rightarrow>
          if \<not> owned then Inr []
          else (case toVirtualNetworkResource az g vnet of
                  Inl e \<Rightarrow> Inl e
                | Inr r \<Rightarrow>
                    (case deref (VirtualNetwork_Name vnet) of
                       Inl e \<Rightarrow> Inl e
                     | Inr n \<Rightarrow>
                         (case listSubnets g n of
                            Inl e \<Rightarrow> Inl e
                          | Inr subnets \<Rightarrow> Inr (r # subnets)))))"

definition listVirtualNetworksAndSubnets ::
  "azure_pkg \<Rightarrow> resourceGetter \<Rightarrow> error + Resource list" where
  "listVirtualNetworksAndSubnets az g =
     (case VirtualNetwork_List (cloud g) (resourceGroupName g) of
        Inl msg \<Rightarrow> Inl (Error msg)
      | Inr vnets \<Rightarrow> appendEach (vnetAndSubnets az g) vnets)"

subsection \<open>Network security groups and route tables\<close>

definition toNetworkSecurityGroupResource :: "resourceGetter \<Rightarrow> SecurityGroup \<Rightarrow> error + Resource" where
  "toNetworkSecurityGroupResource g nsg =
     (case deref (SecurityGroup_Name nsg) of
        Inl e \<Rightarrow> Inl e
      | Inr n \<Rightarrow>
          Inr \<lparr>Obj = ObjSecurityGroup nsg, Type = typeNetworkSecurityGroup, ID = n, Name = n,
               Deleter = deleteNetworkSecurityGroup,
               Blocks = [toKey typeResourceGroup (resourceGroupName g)],
               Shared = AzureNetworkShared (clusterInfo g), Done = False\<rparr>)"

definition listNetworkSecurityGroups :: "resourceGetter \<Rightarrow> error + Resource list" where
  "listNetworkSecurityGroups g =
     (case NetworkSecurityGroup_List (cloud g) (resourceGroupName g) of
        Inl msg \<Rightarrow> Inl (Error msg)
      | Inr nsgs \<Rightarrow>
          appendEach (\<lambda>nsg.
            case toNetworkSecurityGroupResource g nsg of
              Inl e \<Rightarrow> Inl e
            | Inr r \<Rightarrow> Inr [r]) nsgs)"

definition toRouteTableResource :: "resourceGetter \<Rightarrow> RouteTable \<Rightarrow> error + Resource" where
  "toRouteTableResource g rt =
     (case deref (RouteTable_Name rt) of
        Inl e \<Rightarrow> Inl e
      | Inr n \<Rightarrow>
          Inr \<lparr>Obj = ObjRouteTable rt, Type = typeRouteTable, ID = n, Name = n,
               Deleter = deleteRouteTable,
               Blocks = [toKey typeResourceGroup (resourceGroupName g)],
               Shared = AzureRouteTableShared (clusterInfo g), Done = False\<rparr>)"

definition listRouteTables :: "azure_pkg \<Rightarrow> resourceGetter \<Rightarrow> error + Resource list" where
  "listRouteTables az g =
     (case RouteTable_List (cloud g) (resourceGroupName g) of
        Inl msg \<Rightarrow> Inl (Error msg)
      | Inr rts \<Rightarrow>
          appendEach (\<lambda>rt.
            case isOwnedByCluster az g (RouteTable_Tags rt) of
              Inl e \<Rightarrow> Inl e
            | Inr owned \<Rightarrow>
                if \<not> owned then Inr []
                else (case toRouteTableResource g rt of
                        Inl e \<Rightarrow> Inl e
                      | Inr r \<Rightarrow> Inr [r])) rts)"

subsection \<open>VM scale sets and role assignments\<close>

text \<open>
  The three name sets of \<open>toVMScaleSetResource\<close> (\<open>vnets\<close>, \<open>subnets\<close>, \<open>lbs\<close>) are
  threaded through its nested loops.
\<close>

fun lbNames :: "azure_pkg \<Rightarrow> SubResource list \<Rightarrow> string list \<Rightarrow> error + string list" where
  "lbNames az [] lbs = Inr lbs"
| "lbNames az (lb # rest) lbs =
     (case deref (SubResource_ID lb) of
        Inl e \<Rightarrow> Inl e
      | Inr i \<Rightarrow>
          (case ParseLoadBalancerID az i of
             Inl msg \<Rightarrow> Inl (Error (''parsing load balancer ID: '' @ msg))
           | Inr n \<Rightarrow> lbNames az rest (addName n lbs)))"

fun ipNames ::
  "azure_pkg \<Rightarrow> IPConfiguration list \<Rightarrow> string list \<times> string list \<times> string list
     \<Rightarrow> error + string list \<times> string list \<times> string list" where
  "ipNames az [] acc = Inr acc"
| "ipNames az (ip # rest) (vnets, subnets, lbs) =
     (case deref (IPConfiguration_Subnet ip) of
        Inl e \<Rightarrow> Inl e
      | Inr sref \<Rightarrow>
          (case deref (APIEntityReference_ID sref) of
             Inl e \<Rightarrow> Inl e
           | Inr i \<Rightarrow>
               (case ParseSubnetID az i of
                  Inl msg \<Rightarrow> Inl (Error (''error on parsing subnet ID: '' @ msg))
                | Inr subnetID \<Rightarrow>
                    (case (case IPConfiguration_LoadBalancerBackendAddressPools ip of
                             None \<Rightarrow> Inr lbs
                           | Some pools \<Rightarrow> lbNames az pools lbs) of
                       Inl e \<Rightarrow> Inl e
                     | Inr lbs' \<Rightarrow>
                         ipNames az rest
                           (addName (VirtualNetworkName subnetID) vnets,
                            addName (SubnetName subnetID) subnets, lbs')))))"

fun ifaceNames ::
  "azure_pkg \<Rightarrow> NetworkConfiguration list \<Rightarrow> string list \<times> string list \<times> string list
     \<Rightarrow> error + string list \<times> string list \<times> string list" where
  "ifaceNames az [] acc = Inr acc"
| "ifaceNames az (iface # rest) acc =
     (case deref (NetworkConfiguration_IPConfigurations iface) of
        Inl e \<Rightarrow> Inl e
      | Inr ips \<Rightarrow>
          (case ipNames az ips acc of
             Inl e \<Rightarrow> Inl e
           | Inr acc' \<Rightarrow> ifaceNames az rest acc'))"

definition vmDiskKeys :: "VirtualMachineScaleSetVM list \<Rightarrow> error + string list" where
  "vmDiskKeys vms =
     appendEach (\<lambda>vm.
       case deref (VM_StorageProfile vm) of
         Inl e \<Rightarrow> Inl e
       | Inr sp \<Rightarrow>
           (case StorageProfile_DataDisks sp of
              None \<Rightarrow> Inr []
            | Some disks \<Rightarrow>
                appendEach (\<lambda>d.
                  case deref (DataDisk_Name d) of
                    Inl e \<Rightarrow> Inl e
                  | Inr n \<Rightarrow> Inr [toKey typeDisk n]) disks)) vms"

definition toVMScaleSetResource ::
  "azure_pkg \<Rightarrow> resourceGetter \<Rightarrow> VirtualMachineScaleSet \<Rightarrow> VirtualMachineScaleSetVM list
     \<Rightarrow> error + Resource" where
  "toVMScaleSetResource az g vmss vms =
     (case deref (VMSS_VirtualMachineProfile vmss) of
        Inl e \<Rightarrow> Inl e
      | Inr vmp \<Rightarrow>
     (case deref (VMProfile_NetworkProfile vmp) of
        Inl e \<Rightarrow> Inl e
      | Inr np \<Rightarrow>
     (case deref (NetworkProfile_NetworkInterfaceConfigurations np) of
        Inl e \<Rightarrow> Inl e
      | Inr ifaces \<Rightarrow>
     (case ifaceNames az ifaces ([], [], []) of
        Inl e \<Rightarrow> Inl e
      | Inr (vnets, subnets, lbs) \<Rightarrow>
     (case vmDiskKeys vms of
        Inl e \<Rightarrow> Inl e
      | Inr disks \<Rightarrow>
     (case deref (VMSS_Name vmss) of
        Inl e \<Rightarrow> Inl e
      | Inr n \<Rightarrow>
          Inr \<lparr>Obj = ObjVMScaleSet vmss, Type = typeVMScaleSet, ID = n, Name = n,
               Deleter = deleteVMScaleSet,
               Blocks = toKey typeResourceGroup (resourceGroupName g)
                        # map (toKey typeVirtualNetwork) vnets
                        @ map (toKey typeSubnet) subnets
                        @ map (toKey typeLoadBalancer) lbs
                        @ disks,
               Shared = False, Done = False\<rparr>))))))"

definition toRoleAssignmentResource ::
  "resourceGetter \<Rightarrow> RoleAssignment \<Rightarrow> VirtualMachineScaleSet \<Rightarrow> error + Resource" where
  "toRoleAssignmentResource g ra vmss =
     (case deref (RoleAssignment_Name ra) of
        Inl e \<Rightarrow> Inl e
      | Inr n \<Rightarrow>
          (case deref (VMSS_Name vmss) of
             Inl e \<Rightarrow> Inl e
           | Inr vn \<Rightarrow>
               Inr \<lparr>Obj = ObjRoleAssignment ra, Type = typeRoleAssignment, ID = n, Name = n,
                    Deleter = deleteRoleAssignment,
                    Blocks = [toKey typeResourceGroup (resourceGroupName g),
                              toKey typeVMScaleSet vn],
                    Shared = False, Done = False\<rparr>))"

definition listRoleAssignments ::
  "resourceGetter \<Rightarrow> (string \<rightharpoonup> VirtualMachineScaleSet) \<Rightarrow> error + Resource list" where
  "listRoleAssignments g principalIDs =
     (case RoleAssignment_List (cloud g) (resourceGroupName g) of
        Inl msg \<Rightarrow> Inl (Error msg)
      | Inr ras \<Rightarrow>
          appendEach (\<lambda>ra.
            case RoleAssignment_PrincipalID ra of
              None \<Rightarrow> Inr []
            | Some p \<Rightarrow>
                (case principalIDs p of
                   None \<Rightarrow> Inr []
                 | Some vmss \<Rightarrow>
                     (case toRoleAssignmentResource g ra vmss of
                        Inl e \<Rightarrow> Inl e
                      | Inr r \<Rightarrow> Inr [r]))) ras)"

text \<open>
  The first loop of \<open>listVMScaleSetsAndRoleAssignments\<close>: it yields the descriptors
  of the owned scale sets and the map \<open>principalIDs\<close>, which a later scale set with
  the same principal ID overwrites.
\<close>

fun vmssLoop ::
  "azure_pkg \<Rightarrow> resourceGetter \<Rightarrow> VirtualMachineScaleSet list
     \<Rightarrow> (string \<rightharpoonup> VirtualMachineScaleSet)
     \<Rightarrow> error + Resource list \<times> (string \<rightharpoonup> VirtualMachineScaleSet)" where
  "vmssLoop az g [] principalIDs = Inr ([], principalIDs)"
| "vmssLoop az g (vmss # rest) principalIDs =
     (case isOwnedByCluster az g (VMSS_Tags vmss) of
        Inl e \<Rightarrow> Inl e
      | Inr owned \<Rightarrow>
          if \<not> owned then vmssLoop az g rest principalIDs
          else
     (case deref (VMSS_Name vmss) of
        Inl e \<Rightarrow> Inl e
      | Inr n \<Rightarrow>
     (case VMScaleSetVM_List (cloud g) (resourceGroupName g) n of
        Inl msg \<Rightarrow> Inl (Error msg)
      | Inr vms \<Rightarrow>
     (case toVMScaleSetResource az g vmss vms of
        Inl e \<Rightarrow> Inl e
      | Inr r \<Rightarrow>
     (case deref (VMSS_Identity vmss) of
        Inl e \<Rightarrow> Inl e
      | Inr ident \<Rightarrow>
     (case deref (Identity_PrincipalID ident) of
        Inl e \<Rightarrow> Inl e
      | Inr p \<Rightarrow>
     (case vmssLoop az g rest (principalIDs(p \<mapsto> vmss)) of
        Inl e \<Rightarrow> Inl e
      | Inr (rs, principalIDs') \<Rightarrow> Inr (r # rs, principalIDs'))))))))"

definition listVMScaleSetsAndRoleAssignments ::
  "azure_pkg \<Rightarrow> resourceGetter \<Rightarrow> error + Resource list" where
  "listVMScaleSetsAndRoleAssignments az g =
     (case VMScaleSet_List (cloud g) (resourceGroupName g) of
        Inl msg \<Rightarrow> Inl (Error msg)
      | Inr vmsses \<Rightarrow>
          (case vmssLoop az g vmsses Map.empty of
             Inl e \<Rightarrow> Inl e
           | Inr (rs, principalIDs) \<Rightarrow>
               (case listRoleAssignments g principalIDs of
                  Inl e \<Rightarrow> Inl e
                | Inr ras \<Rightarrow> Inr (rs @ ras))))"

subsection \<open>Disks, load balancers and public IP addresses\<close>

definition toDiskResource :: "resourceGetter \<Rightarrow> Disk \<Rightarrow> error + Resource" where
  "toDiskResource g disk =
     (case deref (Disk_Name disk) of
        Inl e \<Rightarrow> Inl e
      | Inr n \<Rightarrow>
          Inr \<lparr>Obj = ObjDisk disk, Type = typeDisk, ID = n, Name = n,
               Deleter = deleteDisk,
               Blocks = [toKey typeResourceGroup (resourceGroupName g)],
               Shared = False, Done = False\<rparr>)"

definition listDisks :: "azure_pkg \<Rightarrow> resourceGetter \<Rightarrow> error + Resource list" where
  "listDisks az g =
     (case Disk_List (cloud g) (resourceGroupName g) of
        Inl msg \<Rightarrow> Inl (Error msg)
      | Inr disks \<Rightarrow>
          appendEach (\<lambda>disk.
            case isOwnedByCluster az g (Disk_Tags disk) of
              Inl e \<Rightarrow> Inl e
            | Inr owned \<Rightarrow>
                if \<not> owned then Inr []
                else (case toDiskResource g disk of
                        Inl e \<Rightarrow> Inl e
                      | Inr r \<Rightarrow> Inr [r])) disks)"

fun lbPIPs :: "azure_pkg \<Rightarrow> FrontendIPConfiguration list \<Rightarrow> string list \<Rightarrow> error + string list" where
  "lbPIPs az [] pips = Inr pips"
| "lbPIPs az (fip # rest) pips =
     (case FrontendIP_PublicIPAddress fip of
        None \<Rightarrow> lbPIPs az rest pips
      | Some pip \<Rightarrow>
          (case deref (PublicIPAddress_ID pip) of
             Inl e \<Rightarrow> Inl e
           | Inr i \<Rightarrow>
               (case ParsePublicIPAddressID az i of
                  Inl msg \<Rightarrow> Inl (Error (''parsing public IP address ID: '' @ msg))
                | Inr n \<Rightarrow> lbPIPs az rest (addName n pips))))"

definition toLoadBalancerResource ::
  "azure_pkg \<Rightarrow> resourceGetter \<Rightarrow> LoadBalancer \<Rightarrow> error + Resource" where
  "toLoadBalancerResource az g loadBalancer =
     (case lbPIPs az (case LoadBalancer_FrontendIPConfigurations loadBalancer of
                        None \<Rightarrow> [] | Some fips \<Rightarrow> fips) [] of
        Inl e \<Rightarrow> Inl e
      | Inr pips \<Rightarrow>
          (case deref (LoadBalancer_Name loadBalancer) of
             Inl e \<Rightarrow> Inl e
           | Inr n \<Rightarrow>
               Inr \<lparr>Obj = ObjLoadBalancer loadBalancer, Type = typeLoadBalancer, ID = n, Name = n,
                    Deleter = deleteLoadBalancer,
                    Blocks = toKey typeResourceGroup (resourceGroupName g)
                             # map (toKey typePublicIPAddress) pips,
                    Shared = False, Done = False\<rparr>))"

definition listLoadBalancers :: "azure_pkg \<Rightarrow> resourceGetter \<Rightarrow> error + Resource list" where
  "listLoadBalancers az g =
     (case LoadBalancer_List (cloud g) (resourceGroupName g) of
        Inl msg \<Rightarrow> Inl (Error msg)
      | Inr loadBalancers \<Rightarrow>
          appendEach (\<lambda>lb.
            case isOwnedByCluster az g (LoadBalancer_Tags lb) of
              Inl e \<Rightarrow> Inl e
            | Inr owned \<Rightarrow>
                if \<not> owned then Inr []
                else (case toLoadBalancerResource az g lb of
                        Inl e \<Rightarrow> Inl e
                      | Inr r \<Rightarrow> Inr [r])) loadBalancers)"

definition toPublicIPAddressResource :: "resourceGetter \<Rightarrow> PublicIPAddress \<Rightarrow> error + Resource" where
  "toPublicIPAddressResource g publicIPAddress =
     (case deref (PublicIPAddress_Name publicIPAddress) of
        Inl e \<Rightarrow> Inl e
      | Inr n \<Rightarrow>
          Inr \<lparr>Obj = ObjPublicIPAddress publicIPAddress, Type = typePublicIPAddress,
               ID = n, Name = n, Deleter = deletePublicIPAddress,
               Blocks = [toKey typeResourceGroup (resourceGroupName g)],
               Shared = False, Done = False\<rparr>)"

definition listPublicIPAddresses :: "azure_pkg \<Rightarrow> resourceGetter \<Rightarrow> error + Resource list" where
  "listPublicIPAddresses az g =
     (case PublicIPAddress_List (cloud g) (resourceGroupName g) of
        Inl msg \<Rightarrow> Inl (Error msg)
      | Inr publicIPAddresses \<Rightarrow>
          appendEach (\<lambda>p.
            case isOwnedByCluster az g (PublicIPAddress_Tags p) of
              Inl e \<Rightarrow> Inl e
            | Inr owned \<Rightarrow>
                if \<not> owned then Inr []
                else (case toPublicIPAddressResource g p of
                        Inl e \<Rightarrow> Inl e
                      | Inr r \<Rightarrow> Inr [r])) publicIPAddresses)"

subsection \<open>The whole listing\<close>

definition fns :: "azure_pkg \<Rightarrow> (resourceGetter \<Rightarrow> error + Resource list) list" where
  "fns az =
     [listResourceGroups az,
      listVirtualNetworksAndSubnets az,
      listNetworkSecurityGroups,
      listRouteTables az,
      listVMScaleSetsAndRoleAssignments az,
      listDisks az,
      listLoadBalancers az,
      listPublicIPAddresses az]"

definition listAll :: "azure_pkg \<Rightarrow> resourceGetter \<Rightarrow> error + Resource list" where
  "listAll az g = appendEach (\<lambda>fn. fn g) (fns az)"

text \<open>
  The loop of \<open>listResourcesAzure\<close> over the slice \<open>rs\<close>: a descriptor with \<open>Done\<close>
  set is passed over, any other is stored under its key, replacing what the key held.
\<close>

fun keyed :: "Resource list \<Rightarrow> (string \<rightharpoonup> Resource) \<Rightarrow> (string \<rightharpoonup> Resource)" where
  "keyed [] resources = resources"
| "keyed (r # rs) resources =
     (if Done r then keyed rs resources
      else keyed rs (resources(toKey (Type r) (ID r) \<mapsto> r)))"

definition listResourcesAzure ::
  "azure_pkg \<Rightarrow> resourceGetter \<Rightarrow> error + (string \<rightharpoonup> Resource)" where
  "listResourcesAzure az g =
     (case listAll az g of
        Inl e \<Rightarrow> Inl e
      | Inr rs \<Rightarrow> Inr (keyed rs Map.empty))"


subsection \<open>A cluster to run the listing on\<close>

text \<open>
  Cluster \<open>c1\<close> in resource group \<open>rg1\<close>, with the resource group, the network and the
  route table declared shared. The cloud holds two networks of the cluster, each with
  a subnet named \<open>default\<close>, one network of somebody else, a scale set with one
  interface, one disk, three role assignments, a load balancer and a public address.
  The toy parsers know the three IDs the cloud objects carry.
\<close>

definition exampleAzure :: azure_pkg where
  "exampleAzure =
     \<lparr>TagClusterName = ''KubernetesCluster'',
      ParseSubnetID =
        (\<lambda>s. if s = ''/virtualNetworks/vnetA/subnets/default''
              then Inr \<lparr>VirtualNetworkName = ''vnetA'', SubnetName = ''default''\<rparr>
              else Inl ''invalid subnet ID''),
      ParseLoadBalancerID =
        (\<lambda>s. if s = ''/loadBalancers/lb1'' then Inr ''lb1''
              else Inl ''invalid load balancer ID''),
      ParseNetworkSecurityGroupID = (\<lambda>s. Inl ''invalid network security group ID''),
      ParsePublicIPAddressID =
        (\<lambda>s. if s = ''/publicIPAddresses/pip1'' then Inr ''pip1''
              else Inl ''invalid public IP address ID'')\<rparr>"

definition ownedTags :: tags where
  "ownedTags = [(''env'', Some ''prod''), (''KubernetesCluster'', Some ''c1'')]"

definition exampleInfo :: ClusterInfo where
  "exampleInfo =
     \<lparr>ClusterInfo_Name = ''c1'', AzureResourceGroupName = ''rg1'',
      AzureResourceGroupShared = True, AzureNetworkShared = True,
      AzureRouteTableShared = True\<rparr>"

definition exampleGroup :: Group where
  "exampleGroup = \<lparr>Group_Name = Some ''rg1'', Group_Tags = ownedTags\<rparr>"

definition vnetA :: VirtualNetwork where
  "vnetA = \<lparr>VirtualNetwork_Name = Some ''vnetA'', VirtualNetwork_Tags = ownedTags,
            VirtualNetwork_Subnets = None\<rparr>"

definition vnetB :: VirtualNetwork where
  "vnetB = \<lparr>VirtualNetwork_Name = Some ''vnetB'', VirtualNetwork_Tags = ownedTags,
            VirtualNetwork_Subnets = None\<rparr>"

definition vnetOther :: VirtualNetwork where
  "vnetOther = \<lparr>VirtualNetwork_Name = Some ''other'', VirtualNetwork_Tags = [],
                VirtualNetwork_Subnets = None\<rparr>"

definition subnetDefault :: Subnet where
  "subnetDefault = \<lparr>Subnet_Name = Some ''default'', Subnet_NetworkSecurityGroup = None\<rparr>"

definition exampleVMSS :: VirtualMachineScaleSet where
  "exampleVMSS =
     \<lparr>VMSS_Name = Some ''vmss1'', VMSS_Tags = ownedTags,
      VMSS_Identity = Some \<lparr>Identity_PrincipalID = Some ''p1''\<rparr>,
      VMSS_VirtualMachineProfile = Some \<lparr>VMProfile_NetworkProfile = Some
        \<lparr>NetworkProfile_NetworkInterfaceConfigurations = Some
          [\<lparr>NetworkConfiguration_IPConfigurations = Some
             [\<lparr>IPConfiguration_Subnet =
                 Some \<lparr>APIEntityReference_ID = Some ''/virtualNetworks/vnetA/subnets/default''\<rparr>,
               IPConfiguration_LoadBalancerBackendAddressPools =
                 Some [\<lparr>SubResource_ID = Some ''/loadBalancers/lb1''\<rparr>]\<rparr>]\<rparr>]\<rparr>\<rparr>\<rparr>"

definition exampleDisk :: Disk where
  "exampleDisk = \<lparr>Disk_Name = Some ''d1'', Disk_Tags = ownedTags\<rparr>"

definition ra1 :: RoleAssignment where
  "ra1 = \<lparr>RoleAssignment_Name = Some ''ra1'', RoleAssignment_PrincipalID = Some ''p1''\<rparr>"

definition ra2 :: RoleAssignment where
  "ra2 = \<lparr>RoleAssignment_Name = Some ''ra2'', RoleAssignment_PrincipalID = None\<rparr>"

definition ra3 :: RoleAssignment where
  "ra3 = \<lparr>RoleAssignment_Name = Some ''ra3'', RoleAssignment_PrincipalID = Some ''p9''\<rparr>"

definition exampleLB :: LoadBalancer where
  "exampleLB =
     \<lparr>LoadBalancer_Name = Some ''lb1'', LoadBalancer_Tags = ownedTags,
      LoadBalancer_FrontendIPConfigurations = Some
        [\<lparr>FrontendIP_PublicIPAddress = Some
           \<lparr>PublicIPAddress_ID = Some ''/publicIPAddresses/pip1'',
            PublicIPAddress_Name = None, PublicIPAddress_Tags = []\<rparr>\<rparr>]\<rparr>"

definition examplePIP :: PublicIPAddress where
  "examplePIP =
     \<lparr>PublicIPAddress_ID = Some ''/publicIPAddresses/pip1'',
      PublicIPAddress_Name = Some ''pip1'', PublicIPAddress_Tags = ownedTags\<rparr>"

definition exampleCloud :: AzureCloud where
  "exampleCloud =
     \<lparr>ResourceGroup_List = (\<lambda>filter. Inr [exampleGroup]),
      VirtualNetwork_List = (\<lambda>rg. Inr [vnetA, vnetB, vnetOther]),
      Subnet_List = (\<lambda>rg vnet. Inr [subnetDefault]),
      NetworkSecurityGroup_List = (\<lambda>rg. Inr []),
      RouteTable_List = (\<lambda>rg. Inr []),
      VMScaleSet_List = (\<lambda>rg. Inr [exampleVMSS]),
      VMScaleSetVM_List = (\<lambda>rg vmss. Inr
        [\<lparr>VM_StorageProfile = Some \<lparr>StorageProfile_DataDisks =
            Some [\<lparr>DataDisk_Name = Some ''d1''\<rparr>]\<rparr>\<rparr>]),
      Disk_List = (\<lambda>rg. Inr [exampleDisk]),
      RoleAssignment_List = (\<lambda>rg. Inr [ra1, ra2, ra3]),
      LoadBalancer_List = (\<lambda>rg. Inr [exampleLB]),
      PublicIPAddress_List = (\<lambda>rg. Inr [examplePIP])\<rparr>"

definition exampleGetter :: resourceGetter where
  "exampleGetter = \<lparr>cloud = exampleCloud, clusterInfo = exampleInfo\<rparr>"

text \<open>The same cluster on a day when the listing of the disks is refused.\<close>

definition failingGetter :: resourceGetter where
  "failingGetter =
     \<lparr>cloud = exampleCloud\<lparr>Disk_List := (\<lambda>rg. Inl ''throttled'')\<rparr>,
      clusterInfo = exampleInfo\<rparr>"

text \<open>The descriptors the listing of the example yields, in listing order.\<close>

definition resGroup :: Resource where
  "resGroup =
     \<lparr>Obj = ObjGroup exampleGroup, Type = ''ResourceGroup'', ID = ''rg1'', Name = ''rg1'',
      Deleter = deleteResourceGroup, Blocks = [], Shared = True, Done = False\<rparr>"

definition resVnetA :: Resource where
  "resVnetA =
     \<lparr>Obj = ObjVirtualNetwork vnetA, Type = ''VirtualNetwork'', ID = ''vnetA'', Name = ''vnetA'',
      Deleter = deleteVirtualNetwork, Blocks = [''ResourceGroup:rg1''],
      Shared = True, Done = False\<rparr>"

definition resSubnetA :: Resource where
  "resSubnetA =
     \<lparr>Obj = ObjSubnet subnetDefault, Type = ''Subnet'', ID = ''default'', Name = ''default'',
      Deleter = deleteSubnet ''vnetA'',
      Blocks = [''VirtualNetwork:vnetA'', ''ResourceGroup:rg1''],
      Shared = True, Done = False\<rparr>"

definition resVnetB :: Resource where
  "resVnetB =
     \<lparr>Obj = ObjVirtualNetwork vnetB, Type = ''VirtualNetwork'', ID = ''vnetB'', Name = ''vnetB'',
      Deleter = deleteVirtualNetwork, Blocks = [''ResourceGroup:rg1''],
      Shared = True, Done = False\<rparr>"

definition resSubnetB :: Resource where
  "resSubnetB =
     \<lparr>Obj = ObjSubnet subnetDefault, Type = ''Subnet'', ID = ''default'', Name = ''default'',
      Deleter = deleteSubnet ''vnetB'',
      Blocks = [''VirtualNetwork:vnetB'', ''ResourceGroup:rg1''],
      Shared = True, Done = False\<rparr>"

definition resVMSS :: Resource where
  "resVMSS =
     \<lparr>Obj = ObjVMScaleSet exampleVMSS, Type = ''VMScaleSet'', ID = ''vmss1'', Name = ''vmss1'',
      Deleter = deleteVMScaleSet,
      Blocks = [''ResourceGroup:rg1'', ''VirtualNetwork:vnetA'', ''Subnet:default'',
                ''LoadBalancer:lb1'', ''Disk:d1''],
      Shared = False, Done = False\<rparr>"

definition resRA1 :: Resource where
  "resRA1 =
     \<lparr>Obj = ObjRoleAssignment ra1, Type = ''RoleAssignment'', ID = ''ra1'', Name = ''ra1'',
      Deleter = deleteRoleAssignment,
      Blocks = [''ResourceGroup:rg1'', ''VMScaleSet:vmss1''],
      Shared = False, Done = False\<rparr>"

definition resDisk :: Resource where
  "resDisk =
     \<lparr>Obj = ObjDisk exampleDisk, Type = ''Disk'', ID = ''d1'', Name = ''d1'',
      Deleter = deleteDisk, Blocks = [''ResourceGroup:rg1''],
      Shared = False, Done = False\<rparr>"

definition resLB :: Resource where
  "resLB =
     \<lparr>Obj = ObjLoadBalancer exampleLB, Type = ''LoadBalancer'', ID = ''lb1'', Name = ''lb1'',
      Deleter = deleteLoadBalancer,
      Blocks = [''ResourceGroup:rg1'', ''PublicIPAddress:pip1''],
      Shared = False, Done = False\<rparr>"

definition resPIP :: Resource where
  "resPIP =
     \<lparr>Obj = ObjPublicIPAddress examplePIP, Type = ''PublicIPAddress'', ID = ''pip1'',
      Name = ''pip1'', Deleter = deletePublicIPAddress, Blocks = [''ResourceGroup:rg1''],
      Shared = False, Done = False\<rparr>"






section \<open>Facts about the listing\<close>

subsection \<open>The listing loops\<close>

text \<open>
  What a loop that ended without an error appended: every element of the result comes from
  one run of the body, and every run of the body left its yield in the result.
\<close>

lemma appendEach_Cons_Inr:
  "appendEach body (x # xs) = Inr rs \<longleftrightarrow>
     (\<exists>ys zs. body x = Inr ys \<and> appendEach body xs = Inr zs \<and> rs = ys @ zs)"
  by (auto split: sum.splits)

lemma appendEach_mem:
  "appendEach body xs = Inr rs \<Longrightarrow> r \<in> set rs \<Longrightarrow> \<exists>x\<in>set xs. \<exists>ys. body x = Inr ys \<and> r \<in> set ys"
proof (induction xs arbitrary: rs)
  case Nil
  then show ?case by simp
next
  case (Cons x xs)
  from Cons.prems(1) obtain ys zs where
    b: "body x = Inr ys" and t: "appendEach body xs = Inr zs" and rs: "rs = ys @ zs"
    unfolding appendEach_Cons_Inr by blast
  from Cons.prems(2) rs have "r \<in> set ys \<or> r \<in> set zs" by simp
  then show ?case
  proof
    assume "r \<in> set ys"
    with b show ?thesis by auto
  next
    assume "r \<in> set zs"
    from Cons.IH [OF t this] show ?thesis by auto
  qed
qed

lemma appendEach_sub:
  "appendEach body xs = Inr rs \<Longrightarrow> x \<in> set xs \<Longrightarrow> \<exists>ys. body x = Inr ys \<and> set ys \<subseteq> set rs"
proof (induction xs arbitrary: rs)
  case Nil
  then show ?case by simp
next
  case (Cons a xs)
  from Cons.prems(1) obtain ys zs where
    b: "body a = Inr ys" and t: "appendEach body xs = Inr zs" and rs: "rs = ys @ zs"
    unfolding appendEach_Cons_Inr by blast
  from Cons.prems(2) have "x = a \<or> x \<in> set xs" by auto
  then show ?case
  proof
    assume "x = a"
    with b rs show ?thesis by auto
  next
    assume "x \<in> set xs"
    from Cons.IH [OF t this] rs show ?thesis by auto
  qed
qed

lemma appendEach_single_mem:
  assumes "appendEach (\<lambda>x. case f x of Inl e \<Rightarrow> Inl e | Inr r \<Rightarrow> Inr [r]) xs = Inr rs"
    and "r \<in> set rs"
  shows "\<exists>x\<in>set xs. f x = Inr r"
proof -
  from appendEach_mem [OF assms] obtain x ys where
    x: "x \<in> set xs" and b: "(case f x of Inl e \<Rightarrow> Inl e | Inr r \<Rightarrow> Inr [r]) = Inr ys"
    and m: "r \<in> set ys"
    by blast
  from b m have "f x = Inr r" by (cases "f x") auto
  with x show ?thesis ..
qed

lemma appendEach_owned_mem:
  assumes "appendEach (\<lambda>x.
             case own x of
               Inl e \<Rightarrow> Inl e
             | Inr owned \<Rightarrow>
                 if \<not> owned then Inr []
                 else (case f x of Inl e \<Rightarrow> Inl e | Inr r \<Rightarrow> Inr [r])) xs = Inr rs"
    and "r \<in> set rs"
  shows "\<exists>x\<in>set xs. own x = Inr True \<and> f x = Inr r"
proof -
  from appendEach_mem [OF assms] obtain x ys where
    x: "x \<in> set xs" and b: "(case own x of
               Inl e \<Rightarrow> Inl e
             | Inr owned \<Rightarrow>
                 if \<not> owned then Inr []
                 else (case f x of Inl e \<Rightarrow> Inl e | Inr r \<Rightarrow> Inr [r])) = Inr ys"
    and m: "r \<in> set ys"
    by blast
  from b m have "own x = Inr True \<and> f x = Inr r"
    by (cases "own x"; cases "f x") (auto split: if_splits)
  with x show ?thesis ..
qed

subsection \<open>The ownership filter\<close>

lemma isOwned_True_mem:
  "isOwnedByCluster az g tags = Inr True \<Longrightarrow>
     (TagClusterName az, Some (ClusterInfo_Name (clusterInfo g))) \<in> set tags"
  by (induction tags) (auto split: option.splits if_splits)

lemma isOwned_other_keys:
  "TagClusterName az \<notin> fst ` set tags \<Longrightarrow> isOwnedByCluster az g tags = Inr False"
  by (induction tags) auto

lemma isOwned_mem_True:
  "distinct (map fst tags) \<Longrightarrow>
   (TagClusterName az, Some (ClusterInfo_Name (clusterInfo g))) \<in> set tags \<Longrightarrow>
   isOwnedByCluster az g tags = Inr True"
proof (induction tags)
  case Nil
  then show ?case by simp
next
  case (Cons kv tags)
  obtain k v where kv: "kv = (k, v)" by (cases kv)
  show ?case
  proof (cases "k = TagClusterName az")
    case True
    with Cons.prems kv have "TagClusterName az \<notin> fst ` set tags" by auto
    with Cons.prems(2) kv True have "v = Some (ClusterInfo_Name (clusterInfo g))"
      by (auto simp: rev_image_eqI)
    with kv True show ?thesis by simp
  next
    case False
    with Cons kv show ?thesis by auto
  qed
qed

lemma isOwned_total:
  "None \<notin> snd ` set tags \<Longrightarrow> \<exists>b. isOwnedByCluster az g tags = Inr b"
  by (induction tags) (auto split: option.splits)

lemma isOwned_Inl:
  "isOwnedByCluster az g tags = Inl e \<Longrightarrow> e = NilDereference \<and> (TagClusterName az, None) \<in> set tags"
  by (induction tags) (auto split: option.splits if_splits)

lemma isOwned_nil_faults:
  "distinct (map fst tags) \<Longrightarrow> (TagClusterName az, None) \<in> set tags \<Longrightarrow>
   isOwnedByCluster az g tags = Inl NilDereference"
proof (induction tags)
  case Nil
  then show ?case by simp
next
  case (Cons kv tags)
  obtain k v where kv: "kv = (k, v)" by (cases kv)
  show ?case
  proof (cases "k = TagClusterName az")
    case True
    with Cons.prems kv have "TagClusterName az \<notin> fst ` set tags" by auto
    with Cons.prems(2) kv True have "v = None"
      by (auto simp: rev_image_eqI)
    with kv True show ?thesis by simp
  next
    case False
    with Cons kv show ?thesis by auto
  qed
qed

subsection \<open>The keyed map\<close>

lemma keyed_append: "keyed (xs @ ys) m = keyed ys (keyed xs m)"
  by (induction xs arbitrary: m) auto

lemma keyed_Some:
  "keyed rs m k = Some r \<Longrightarrow>
     m k = Some r \<or> (r \<in> set rs \<and> \<not> Done r \<and> k = toKey (Type r) (ID r))"
proof (induction rs arbitrary: m)
  case Nil
  then show ?case by simp
next
  case (Cons a rs)
  show ?case
  proof (cases "Done a")
    case True
    with Cons.prems have "keyed rs m k = Some r" by simp
    from Cons.IH [OF this] show ?thesis by auto
  next
    case False
    with Cons.prems have "keyed rs (m(toKey (Type a) (ID a) \<mapsto> a)) k = Some r" by simp
    from Cons.IH [OF this] False show ?thesis by (auto split: if_splits)
  qed
qed

lemma keyed_other:
  "\<forall>y\<in>set ys. \<not> Done y \<longrightarrow> toKey (Type y) (ID y) \<noteq> k \<Longrightarrow> keyed ys m k = m k"
  by (induction ys arbitrary: m) auto

subsection \<open>One descriptor\<close>

text \<open>
  What each constructor of a descriptor fills in, when it returns one.
\<close>

lemmas type_defs =
  typeResourceGroup_def typeVirtualNetwork_def typeNetworkSecurityGroup_def typeSubnet_def
  typeRouteTable_def typeVMScaleSet_def typeDisk_def typeRoleAssignment_def
  typeLoadBalancer_def typePublicIPAddress_def

lemma type_neq [simp]:
  "typeVirtualNetwork \<noteq> typeResourceGroup" "typeNetworkSecurityGroup \<noteq> typeResourceGroup"
  "typeSubnet \<noteq> typeResourceGroup" "typeRouteTable \<noteq> typeResourceGroup"
  "typeVMScaleSet \<noteq> typeResourceGroup" "typeDisk \<noteq> typeResourceGroup"
  "typeRoleAssignment \<noteq> typeResourceGroup" "typeLoadBalancer \<noteq> typeResourceGroup"
  "typePublicIPAddress \<noteq> typeResourceGroup"
  by (simp_all add: typeResourceGroup_def typeVirtualNetwork_def typeNetworkSecurityGroup_def
      typeSubnet_def typeRouteTable_def typeVMScaleSet_def typeDisk_def typeRoleAssignment_def
      typeLoadBalancer_def typePublicIPAddress_def)

lemma typeSubnet_neq_typeVirtualNetwork: "typeSubnet \<noteq> typeVirtualNetwork"
  by (simp add: typeSubnet_def typeVirtualNetwork_def)

lemma typeRoleAssignment_neq_typeVMScaleSet: "typeVMScaleSet \<noteq> typeRoleAssignment"
  by (simp add: typeRoleAssignment_def typeVMScaleSet_def)

lemma toResourceGroupResource_Inr:
  "toResourceGroupResource g rg = Inr r \<Longrightarrow>
     Type r = typeResourceGroup \<and> Blocks r = [] \<and> \<not> Done r \<and> Obj r = ObjGroup rg
     \<and> Shared r = AzureResourceGroupShared (clusterInfo g)"
  by (auto simp: toResourceGroupResource_def deref_def split: option.splits)

lemma toVirtualNetworkResource_Inr:
  "toVirtualNetworkResource az g vnet = Inr r \<Longrightarrow>
     Type r = typeVirtualNetwork \<and> toKey typeResourceGroup (resourceGroupName g) \<in> set (Blocks r)
     \<and> \<not> Done r \<and> Obj r = ObjVirtualNetwork vnet \<and> Shared r = AzureNetworkShared (clusterInfo g)"
  by (auto simp: toVirtualNetworkResource_def deref_def split: option.splits sum.splits)

lemma toSubnetResource_Inr:
  "toSubnetResource g sn vnetName = Inr r \<Longrightarrow>
     Type r = typeSubnet \<and> Obj r = ObjSubnet sn \<and> Subnet_Name sn = Some (ID r)
     \<and> Name r = ID r \<and> Deleter r = deleteSubnet vnetName
     \<and> Blocks r = [toKey typeVirtualNetwork vnetName, toKey typeResourceGroup (resourceGroupName g)]
     \<and> \<not> Done r \<and> Shared r = AzureNetworkShared (clusterInfo g)"
  by (auto simp: toSubnetResource_def deref_def split: option.splits)

lemma toNetworkSecurityGroupResource_Inr:
  "toNetworkSecurityGroupResource g nsg = Inr r \<Longrightarrow>
     Type r = typeNetworkSecurityGroup \<and> Blocks r = [toKey typeResourceGroup (resourceGroupName g)]
     \<and> \<not> Done r \<and> Shared r = AzureNetworkShared (clusterInfo g)"
  by (auto simp: toNetworkSecurityGroupResource_def deref_def split: option.splits)

lemma toRouteTableResource_Inr:
  "toRouteTableResource g rt = Inr r \<Longrightarrow>
     Type r = typeRouteTable \<and> Blocks r = [toKey typeResourceGroup (resourceGroupName g)]
     \<and> \<not> Done r \<and> Shared r = AzureRouteTableShared (clusterInfo g)"
  by (auto simp: toRouteTableResource_def deref_def split: option.splits)

lemma toVMScaleSetResource_Inr:
  "toVMScaleSetResource az g vmss vms = Inr r \<Longrightarrow>
     Type r = typeVMScaleSet \<and> toKey typeResourceGroup (resourceGroupName g) \<in> set (Blocks r)
     \<and> \<not> Done r \<and> Obj r = ObjVMScaleSet vmss \<and> \<not> Shared r"
  by (auto simp: toVMScaleSetResource_def deref_def split: option.splits sum.splits prod.splits)

lemma toRoleAssignmentResource_Inr:
  "toRoleAssignmentResource g ra vmss = Inr r \<Longrightarrow>
     Type r = typeRoleAssignment \<and> Obj r = ObjRoleAssignment ra
     \<and> (\<exists>n. VMSS_Name vmss = Some n \<and>
           Blocks r = [toKey typeResourceGroup (resourceGroupName g), toKey typeVMScaleSet n])
     \<and> \<not> Done r \<and> \<not> Shared r"
  by (auto simp: toRoleAssignmentResource_def deref_def split: option.splits)

lemma toDiskResource_Inr:
  "toDiskResource g d = Inr r \<Longrightarrow>
     Type r = typeDisk \<and> Blocks r = [toKey typeResourceGroup (resourceGroupName g)]
     \<and> \<not> Done r \<and> \<not> Shared r"
  by (auto simp: toDiskResource_def deref_def split: option.splits)

lemma toLoadBalancerResource_Inr:
  "toLoadBalancerResource az g lb = Inr r \<Longrightarrow>
     Type r = typeLoadBalancer \<and> toKey typeResourceGroup (resourceGroupName g) \<in> set (Blocks r)
     \<and> \<not> Done r \<and> \<not> Shared r"
  by (auto simp: toLoadBalancerResource_def deref_def split: option.splits sum.splits)

lemma toPublicIPAddressResource_Inr:
  "toPublicIPAddressResource g p = Inr r \<Longrightarrow>
     Type r = typePublicIPAddress \<and> Blocks r = [toKey typeResourceGroup (resourceGroupName g)]
     \<and> \<not> Done r \<and> \<not> Shared r"
  by (auto simp: toPublicIPAddressResource_def deref_def split: option.splits)

subsection \<open>What each listing emits\<close>

lemma listResourceGroups_emits:
  assumes "listResourceGroups az g = Inr rs" and "r \<in> set rs"
  shows "Type r = typeResourceGroup \<and> Blocks r = [] \<and> \<not> Done r
         \<and> Shared r = AzureResourceGroupShared (clusterInfo g)"
proof -
  from assms(1) obtain rgs where
    l: "appendEach (\<lambda>rg.
            case isOwnedByCluster az g (Group_Tags rg) of
              Inl e \<Rightarrow> Inl e
            | Inr owned \<Rightarrow>
                if \<not> owned then Inr []
                else (case toResourceGroupResource g rg of
                        Inl e \<Rightarrow> Inl e
                      | Inr r \<Rightarrow> Inr [r])) rgs = Inr rs"
    by (auto simp: listResourceGroups_def split: sum.splits)
  from appendEach_owned_mem [OF l assms(2)] obtain rg where "toResourceGroupResource g rg = Inr r"
    by blast
  from toResourceGroupResource_Inr [OF this] show ?thesis by simp
qed

lemma listRouteTables_emits:
  assumes "listRouteTables az g = Inr rs" and "r \<in> set rs"
  shows "Type r = typeRouteTable
         \<and> toKey typeResourceGroup (resourceGroupName g) \<in> set (Blocks r) \<and> \<not> Done r
         \<and> Shared r = AzureRouteTableShared (clusterInfo g)"
proof -
  from assms(1) obtain xs where
    l: "appendEach (\<lambda>rt.
            case isOwnedByCluster az g (RouteTable_Tags rt) of
              Inl e \<Rightarrow> Inl e
            | Inr owned \<Rightarrow>
                if \<not> owned then Inr []
                else (case toRouteTableResource g rt of
                        Inl e \<Rightarrow> Inl e
                      | Inr r \<Rightarrow> Inr [r])) xs = Inr rs"
    by (auto simp: listRouteTables_def split: sum.splits)
  from appendEach_owned_mem [OF l assms(2)] obtain x where "toRouteTableResource g x = Inr r"
    by blast
  from toRouteTableResource_Inr [OF this] show ?thesis by simp
qed

lemma listDisks_emits:
  assumes "listDisks az g = Inr rs" and "r \<in> set rs"
  shows "Type r = typeDisk
         \<and> toKey typeResourceGroup (resourceGroupName g) \<in> set (Blocks r) \<and> \<not> Done r
         \<and> \<not> Shared r"
proof -
  from assms(1) obtain xs where
    l: "appendEach (\<lambda>disk.
            case isOwnedByCluster az g (Disk_Tags disk) of
              Inl e \<Rightarrow> Inl e
            | Inr owned \<Rightarrow>
                if \<not> owned then Inr []
                else (case toDiskResource g disk of
                        Inl e \<Rightarrow> Inl e
                      | Inr r \<Rightarrow> Inr [r])) xs = Inr rs"
    by (auto simp: listDisks_def split: sum.splits)
  from appendEach_owned_mem [OF l assms(2)] obtain x where "toDiskResource g x = Inr r"
    by blast
  from toDiskResource_Inr [OF this] show ?thesis by simp
qed

lemma listLoadBalancers_emits:
  assumes "listLoadBalancers az g = Inr rs" and "r \<in> set rs"
  shows "Type r = typeLoadBalancer
         \<and> toKey typeResourceGroup (resourceGroupName g) \<in> set (Blocks r) \<and> \<not> Done r
         \<and> \<not> Shared r"
proof -
  from assms(1) obtain xs where
    l: "appendEach (\<lambda>lb.
            case isOwnedByCluster az g (LoadBalancer_Tags lb) of
              Inl e \<Rightarrow> Inl e
            | Inr owned \<Rightarrow>
                if \<not> owned then Inr []
                else (case toLoadBalancerResource az g lb of
                        Inl e \<Rightarrow> Inl e
                      | Inr r \<Rightarrow> Inr [r])) xs = Inr rs"
    by (auto simp: listLoadBalancers_def split: sum.splits)
  from appendEach_owned_mem [OF l assms(2)] obtain x where "toLoadBalancerResource az g x = Inr r"
    by blast
  from toLoadBalancerResource_Inr [OF this] show ?thesis by simp
qed

lemma listPublicIPAddresses_emits:
  assumes "listPublicIPAddresses az g = Inr rs" and "r \<in> set rs"
  shows "Type r = typePublicIPAddress
         \<and> toKey typeResourceGroup (resourceGroupName g) \<in> set (Blocks r) \<and> \<not> Done r
         \<and> \<not> Shared r"
proof -
  from assms(1) obtain xs where
    l: "appendEach (\<lambda>p.
            case isOwnedByCluster az g (PublicIPAddress_Tags p) of
              Inl e \<Rightarrow> Inl e
            | Inr owned \<Rightarrow>
                if \<not> owned then Inr []
                else (case toPublicIPAddressResource g p of
                        Inl e \<Rightarrow> Inl e
                      | Inr r \<Rightarrow> Inr [r])) xs = Inr rs"
    by (auto simp: listPublicIPAddresses_def split: sum.splits)
  from appendEach_owned_mem [OF l assms(2)] obtain x where "toPublicIPAddressResource g x = Inr r"
    by blast
  from toPublicIPAddressResource_Inr [OF this] show ?thesis by simp
qed

lemma listNetworkSecurityGroups_emits:
  assumes "listNetworkSecurityGroups g = Inr rs" and "r \<in> set rs"
  shows "Type r = typeNetworkSecurityGroup
         \<and> toKey typeResourceGroup (resourceGroupName g) \<in> set (Blocks r) \<and> \<not> Done r
         \<and> Shared r = AzureNetworkShared (clusterInfo g)"
proof -
  from assms(1) obtain xs where
    l: "appendEach (\<lambda>nsg.
            case toNetworkSecurityGroupResource g nsg of
              Inl e \<Rightarrow> Inl e
            | Inr r \<Rightarrow> Inr [r]) xs = Inr rs"
    by (auto simp: listNetworkSecurityGroups_def split: sum.splits)
  from appendEach_single_mem [OF l assms(2)] obtain x where
    "toNetworkSecurityGroupResource g x = Inr r"
    by blast
  from toNetworkSecurityGroupResource_Inr [OF this] show ?thesis by simp
qed

lemma listSubnets_Inr:
  "listSubnets g n = Inr rs \<longleftrightarrow>
     (\<exists>sns. Subnet_List (cloud g) (resourceGroupName g) n = Inr sns \<and>
        appendEach (\<lambda>sn. case toSubnetResource g sn n of
                             Inl e \<Rightarrow> Inl e
                           | Inr r \<Rightarrow> Inr [r]) sns = Inr rs)"
  by (auto simp: listSubnets_def split: sum.splits)

lemma listSubnets_emits:
  assumes "listSubnets g n = Inr rs" and "r \<in> set rs"
  shows "\<exists>sn. toSubnetResource g sn n = Inr r"
proof -
  from assms(1) obtain sns where
    l: "appendEach (\<lambda>sn.
            case toSubnetResource g sn n of
              Inl e \<Rightarrow> Inl e
            | Inr r \<Rightarrow> Inr [r]) sns = Inr rs"
    unfolding listSubnets_Inr by blast
  from appendEach_single_mem [OF l assms(2)] show ?thesis by blast
qed

lemma vnetAndSubnets_Inr:
  assumes "vnetAndSubnets az g vnet = Inr ys"
  shows "(isOwnedByCluster az g (VirtualNetwork_Tags vnet) = Inr False \<and> ys = []) \<or>
         (isOwnedByCluster az g (VirtualNetwork_Tags vnet) = Inr True \<and>
          (\<exists>r n subnets. toVirtualNetworkResource az g vnet = Inr r \<and>
             VirtualNetwork_Name vnet = Some n \<and> listSubnets g n = Inr subnets \<and>
             ys = r # subnets))"
proof (cases "isOwnedByCluster az g (VirtualNetwork_Tags vnet)")
  case (Inl e)
  with assms show ?thesis by (simp add: vnetAndSubnets_def)
next
  case (Inr owned)
  show ?thesis
  proof (cases owned)
    case False
    with Inr assms show ?thesis by (simp add: vnetAndSubnets_def)
  next
    case True
    with Inr assms obtain r where r: "toVirtualNetworkResource az g vnet = Inr r"
      by (cases "toVirtualNetworkResource az g vnet") (auto simp: vnetAndSubnets_def)
    with Inr True assms obtain n where n: "VirtualNetwork_Name vnet = Some n"
      by (cases "VirtualNetwork_Name vnet") (auto simp: vnetAndSubnets_def deref_def)
    with Inr True assms r obtain subnets where "listSubnets g n = Inr subnets" "ys = r # subnets"
      by (cases "listSubnets g n") (auto simp: vnetAndSubnets_def deref_def)
    with Inr True r n show ?thesis by simp
  qed
qed

lemma listVirtualNetworksAndSubnets_Inr:
  "listVirtualNetworksAndSubnets az g = Inr rs \<longleftrightarrow>
     (\<exists>vnets. VirtualNetwork_List (cloud g) (resourceGroupName g) = Inr vnets \<and>
        appendEach (vnetAndSubnets az g) vnets = Inr rs)"
  by (auto simp: listVirtualNetworksAndSubnets_def split: sum.splits)

lemma listVirtualNetworksAndSubnets_emits:
  assumes "listVirtualNetworksAndSubnets az g = Inr rs" and "r \<in> set rs"
  shows "(Type r = typeVirtualNetwork \<or> Type r = typeSubnet)
         \<and> toKey typeResourceGroup (resourceGroupName g) \<in> set (Blocks r) \<and> \<not> Done r
         \<and> Shared r = AzureNetworkShared (clusterInfo g)"
proof -
  from assms(1) obtain vnets where l: "appendEach (vnetAndSubnets az g) vnets = Inr rs"
    unfolding listVirtualNetworksAndSubnets_Inr by blast
  from appendEach_mem [OF l assms(2)] obtain vnet ys where
    b: "vnetAndSubnets az g vnet = Inr ys" and m: "r \<in> set ys"
    by blast
  from vnetAndSubnets_Inr [OF b] m obtain r0 n subnets where
    r0: "toVirtualNetworkResource az g vnet = Inr r0" and
    sn: "listSubnets g n = Inr subnets" and ys: "ys = r0 # subnets"
    by auto
  from m ys have "r = r0 \<or> r \<in> set subnets" by simp
  then show ?thesis
  proof
    assume "r = r0"
    with toVirtualNetworkResource_Inr [OF r0] show ?thesis by simp
  next
    assume "r \<in> set subnets"
    from listSubnets_emits [OF sn this] obtain s where "toSubnetResource g s n = Inr r" ..
    from toSubnetResource_Inr [OF this] show ?thesis by simp
  qed
qed

lemma vmssLoop_Cons_Inr:
  assumes "vmssLoop az g (vmss # rest) pids = Inr (rs, pids')"
  shows "(isOwnedByCluster az g (VMSS_Tags vmss) = Inr False \<and>
          vmssLoop az g rest pids = Inr (rs, pids')) \<or>
         (isOwnedByCluster az g (VMSS_Tags vmss) = Inr True \<and>
          (\<exists>n vms r ident p rs'.
             VMSS_Name vmss = Some n \<and>
             VMScaleSetVM_List (cloud g) (resourceGroupName g) n = Inr vms \<and>
             toVMScaleSetResource az g vmss vms = Inr r \<and>
             VMSS_Identity vmss = Some ident \<and> Identity_PrincipalID ident = Some p \<and>
             vmssLoop az g rest (pids(p \<mapsto> vmss)) = Inr (rs', pids') \<and> rs = r # rs'))"
proof (cases "isOwnedByCluster az g (VMSS_Tags vmss)")
  case (Inl e)
  with assms show ?thesis by simp
next
  case (Inr owned)
  show ?thesis
  proof (cases owned)
    case False
    with Inr assms show ?thesis by simp
  next
    case True
    note o = Inr True
    from o assms obtain n where n: "VMSS_Name vmss = Some n"
      by (cases "VMSS_Name vmss") (auto simp: deref_def)
    from o n assms obtain vms where
      vms: "VMScaleSetVM_List (cloud g) (resourceGroupName g) n = Inr vms"
      by (cases "VMScaleSetVM_List (cloud g) (resourceGroupName g) n") (auto simp: deref_def)
    from o n vms assms obtain r where r: "toVMScaleSetResource az g vmss vms = Inr r"
      by (cases "toVMScaleSetResource az g vmss vms") (auto simp: deref_def)
    from o n vms r assms obtain ident where i: "VMSS_Identity vmss = Some ident"
      by (cases "VMSS_Identity vmss") (auto simp: deref_def)
    from o n vms r i assms obtain p where p: "Identity_PrincipalID ident = Some p"
      by (cases "Identity_PrincipalID ident") (auto simp: deref_def)
    from o n vms r i p assms obtain rs' where
      "vmssLoop az g rest (pids(p \<mapsto> vmss)) = Inr (rs', pids')" "rs = r # rs'"
      by (cases "vmssLoop az g rest (pids(p \<mapsto> vmss))") (auto simp: deref_def)
    with o n vms r i p show ?thesis by simp
  qed
qed

lemma vmssLoop_emits:
  "vmssLoop az g xs pids = Inr (rs, pids') \<Longrightarrow> r \<in> set rs \<Longrightarrow>
     Type r = typeVMScaleSet \<and> toKey typeResourceGroup (resourceGroupName g) \<in> set (Blocks r)
     \<and> \<not> Done r \<and> \<not> Shared r \<and> (\<exists>v. Obj r = ObjVMScaleSet v)"
proof (induction xs arbitrary: pids rs)
  case Nil
  then show ?case by simp
next
  case (Cons vmss rest)
  from vmssLoop_Cons_Inr [OF Cons.prems(1)] show ?case
  proof (elim disjE conjE exE)
    assume "vmssLoop az g rest pids = Inr (rs, pids')"
    from Cons.IH [OF this Cons.prems(2)] show ?thesis .
  next
    fix n vms r0 ident p rs'
    assume r0: "toVMScaleSetResource az g vmss vms = Inr r0"
      and l: "vmssLoop az g rest (pids(p \<mapsto> vmss)) = Inr (rs', pids')"
      and rs: "rs = r0 # rs'"
    from Cons.prems(2) rs have "r = r0 \<or> r \<in> set rs'" by simp
    then show ?thesis
    proof
      assume "r = r0"
      with toVMScaleSetResource_Inr [OF r0] show ?thesis by simp
    next
      assume "r \<in> set rs'"
      from Cons.IH [OF l this] show ?thesis .
    qed
  qed
qed

lemma vmssLoop_principalIDs_Some:
  "vmssLoop az g xs pids = Inr (rs, pids') \<Longrightarrow> pids' p = Some v \<Longrightarrow>
     pids p = Some v \<or>
     (v \<in> set xs \<and> isOwnedByCluster az g (VMSS_Tags v) = Inr True \<and>
      (\<exists>n. VMSS_Name v = Some n) \<and>
      (\<exists>ident. VMSS_Identity v = Some ident \<and> Identity_PrincipalID ident = Some p))"
proof (induction xs arbitrary: pids rs)
  case Nil
  then show ?case by simp
next
  case (Cons vmss rest)
  from vmssLoop_Cons_Inr [OF Cons.prems(1)] show ?case
  proof (elim disjE conjE exE)
    assume "vmssLoop az g rest pids = Inr (rs, pids')"
    from Cons.IH [OF this Cons.prems(2)] show ?thesis by auto
  next
    fix n vms r0 ident q rs'
    assume own: "isOwnedByCluster az g (VMSS_Tags vmss) = Inr True"
      and n: "VMSS_Name vmss = Some n"
      and i: "VMSS_Identity vmss = Some ident" and q: "Identity_PrincipalID ident = Some q"
      and l: "vmssLoop az g rest (pids(q \<mapsto> vmss)) = Inr (rs', pids')"
    from Cons.IH [OF l Cons.prems(2)] own n i q show ?thesis
      by (auto split: if_splits)
  qed
qed

lemma vmssLoop_principalIDs_dom:
  "vmssLoop az g xs pids = Inr (rs, pids') \<Longrightarrow>
     pids p \<noteq> None \<or>
     (\<exists>v\<in>set xs. isOwnedByCluster az g (VMSS_Tags v) = Inr True \<and>
        (\<exists>ident. VMSS_Identity v = Some ident \<and> Identity_PrincipalID ident = Some p)) \<Longrightarrow>
     pids' p \<noteq> None"
proof (induction xs arbitrary: pids rs)
  case Nil
  then show ?case by simp
next
  case (Cons vmss rest)
  from vmssLoop_Cons_Inr [OF Cons.prems(1)] show ?case
  proof (elim disjE conjE exE)
    assume nown: "isOwnedByCluster az g (VMSS_Tags vmss) = Inr False"
      and l: "vmssLoop az g rest pids = Inr (rs, pids')"
    from Cons.prems(2) nown have
      "pids p \<noteq> None \<or>
       (\<exists>v\<in>set rest. isOwnedByCluster az g (VMSS_Tags v) = Inr True \<and>
          (\<exists>ident. VMSS_Identity v = Some ident \<and> Identity_PrincipalID ident = Some p))"
      by auto
    from Cons.IH [OF l this] show ?thesis .
  next
    fix n vms r0 ident q rs'
    assume i: "VMSS_Identity vmss = Some ident" and q: "Identity_PrincipalID ident = Some q"
      and l: "vmssLoop az g rest (pids(q \<mapsto> vmss)) = Inr (rs', pids')"
    from Cons.prems(2) i q have
      "(pids(q \<mapsto> vmss)) p \<noteq> None \<or>
       (\<exists>v\<in>set rest. isOwnedByCluster az g (VMSS_Tags v) = Inr True \<and>
          (\<exists>ident. VMSS_Identity v = Some ident \<and> Identity_PrincipalID ident = Some p))"
      by auto
    from Cons.IH [OF l this] show ?thesis .
  qed
qed

lemma listRoleAssignments_Inr:
  "listRoleAssignments g pids = Inr rs \<longleftrightarrow>
     (\<exists>ras. RoleAssignment_List (cloud g) (resourceGroupName g) = Inr ras \<and>
        appendEach (\<lambda>ra.
            case RoleAssignment_PrincipalID ra of
              None \<Rightarrow> Inr []
            | Some p \<Rightarrow>
                (case pids p of
                   None \<Rightarrow> Inr []
                 | Some vmss \<Rightarrow>
                     (case toRoleAssignmentResource g ra vmss of
                        Inl e \<Rightarrow> Inl e
                      | Inr r \<Rightarrow> Inr [r]))) ras = Inr rs)"
  by (auto simp: listRoleAssignments_def split: sum.splits)

lemma roleAssignment_body_Inr:
  assumes "(case RoleAssignment_PrincipalID ra of
              None \<Rightarrow> Inr []
            | Some p \<Rightarrow>
                (case pids p of
                   None \<Rightarrow> Inr []
                 | Some vmss \<Rightarrow>
                     (case toRoleAssignmentResource g ra vmss of
                        Inl e \<Rightarrow> Inl e
                      | Inr r \<Rightarrow> Inr [r]))) = Inr ys"
  shows "(ys = [] \<and> (\<forall>p. RoleAssignment_PrincipalID ra = Some p \<longrightarrow> pids p = None)) \<or>
         (\<exists>p vmss r. RoleAssignment_PrincipalID ra = Some p \<and> pids p = Some vmss \<and>
            toRoleAssignmentResource g ra vmss = Inr r \<and> ys = [r])"
proof (cases "RoleAssignment_PrincipalID ra")
  case None
  with assms show ?thesis by simp
next
  case (Some p)
  show ?thesis
  proof (cases "pids p")
    case None
    with Some assms show ?thesis by simp
  next
    case (Some vmss)
    with \<open>RoleAssignment_PrincipalID ra = Some p\<close> assms show ?thesis
      by (cases "toRoleAssignmentResource g ra vmss") auto
  qed
qed

lemma listVMScaleSetsAndRoleAssignments_Inr:
  "listVMScaleSetsAndRoleAssignments az g = Inr rs \<longleftrightarrow>
     (\<exists>vmsses vs pids ras.
        VMScaleSet_List (cloud g) (resourceGroupName g) = Inr vmsses \<and>
        vmssLoop az g vmsses Map.empty = Inr (vs, pids) \<and>
        listRoleAssignments g pids = Inr ras \<and> rs = vs @ ras)"
  by (auto simp: listVMScaleSetsAndRoleAssignments_def split: sum.splits prod.splits)

lemma listRoleAssignments_emits:
  assumes "listRoleAssignments g pids = Inr rs" and "r \<in> set rs"
  shows "\<exists>ras ra p vmss.
           RoleAssignment_List (cloud g) (resourceGroupName g) = Inr ras \<and> ra \<in> set ras \<and>
           RoleAssignment_PrincipalID ra = Some p \<and> pids p = Some vmss \<and>
           toRoleAssignmentResource g ra vmss = Inr r"
proof -
  from assms(1) obtain ras where
    rl: "RoleAssignment_List (cloud g) (resourceGroupName g) = Inr ras" and
    l: "appendEach (\<lambda>ra.
            case RoleAssignment_PrincipalID ra of
              None \<Rightarrow> Inr []
            | Some p \<Rightarrow>
                (case pids p of
                   None \<Rightarrow> Inr []
                 | Some vmss \<Rightarrow>
                     (case toRoleAssignmentResource g ra vmss of
                        Inl e \<Rightarrow> Inl e
                      | Inr r \<Rightarrow> Inr [r]))) ras = Inr rs"
    unfolding listRoleAssignments_Inr by blast
  from appendEach_mem [OF l assms(2)] obtain ra ys where
    ra: "ra \<in> set ras" and
    b: "(case RoleAssignment_PrincipalID ra of
              None \<Rightarrow> Inr []
            | Some p \<Rightarrow>
                (case pids p of
                   None \<Rightarrow> Inr []
                 | Some vmss \<Rightarrow>
                     (case toRoleAssignmentResource g ra vmss of
                        Inl e \<Rightarrow> Inl e
                      | Inr r \<Rightarrow> Inr [r]))) = Inr ys" and m: "r \<in> set ys"
    by blast
  from roleAssignment_body_Inr [OF b] m obtain p vmss where
    "RoleAssignment_PrincipalID ra = Some p" "pids p = Some vmss"
    "toRoleAssignmentResource g ra vmss = Inr r"
    by auto
  with rl ra show ?thesis by auto
qed

lemma listRoleAssignments_covers:
  assumes "listRoleAssignments g pids = Inr rs"
    and "RoleAssignment_List (cloud g) (resourceGroupName g) = Inr ras"
    and "ra \<in> set ras" and "RoleAssignment_PrincipalID ra = Some p" and "pids p = Some vmss"
  shows "\<exists>r\<in>set rs. toRoleAssignmentResource g ra vmss = Inr r"
proof -
  from assms(1,2) have
    l: "appendEach (\<lambda>ra.
            case RoleAssignment_PrincipalID ra of
              None \<Rightarrow> Inr []
            | Some p \<Rightarrow>
                (case pids p of
                   None \<Rightarrow> Inr []
                 | Some vmss \<Rightarrow>
                     (case toRoleAssignmentResource g ra vmss of
                        Inl e \<Rightarrow> Inl e
                      | Inr r \<Rightarrow> Inr [r]))) ras = Inr rs"
    unfolding listRoleAssignments_Inr by auto
  from appendEach_sub [OF l assms(3)] obtain ys where
    b: "(case RoleAssignment_PrincipalID ra of
              None \<Rightarrow> Inr []
            | Some p \<Rightarrow>
                (case pids p of
                   None \<Rightarrow> Inr []
                 | Some vmss \<Rightarrow>
                     (case toRoleAssignmentResource g ra vmss of
                        Inl e \<Rightarrow> Inl e
                      | Inr r \<Rightarrow> Inr [r]))) = Inr ys" and sub: "set ys \<subseteq> set rs"
    by blast
  from roleAssignment_body_Inr [OF b] assms(4,5) obtain r where
    "toRoleAssignmentResource g ra vmss = Inr r" "ys = [r]"
    by auto
  with sub show ?thesis by auto
qed

lemma listVMScaleSetsAndRoleAssignments_emits:
  assumes "listVMScaleSetsAndRoleAssignments az g = Inr rs" and "r \<in> set rs"
  shows "(Type r = typeVMScaleSet \<or> Type r = typeRoleAssignment)
         \<and> toKey typeResourceGroup (resourceGroupName g) \<in> set (Blocks r) \<and> \<not> Done r
         \<and> \<not> Shared r"
proof -
  from assms(1) obtain vmsses vs pids ras where
    loop: "vmssLoop az g vmsses Map.empty = Inr (vs, pids)" and
    lra: "listRoleAssignments g pids = Inr ras" and rs: "rs = vs @ ras"
    unfolding listVMScaleSetsAndRoleAssignments_Inr by blast
  from assms(2) rs have "r \<in> set vs \<or> r \<in> set ras" by simp
  then show ?thesis
  proof
    assume "r \<in> set vs"
    from vmssLoop_emits [OF loop this] show ?thesis by simp
  next
    assume "r \<in> set ras"
    from listRoleAssignments_emits [OF lra this] obtain ra vmss where
      "toRoleAssignmentResource g ra vmss = Inr r"
      by blast
    from toRoleAssignmentResource_Inr [OF this] show ?thesis by auto
  qed
qed

lemma listAll_emits:
  assumes "listAll az g = Inr rs" and "r \<in> set rs"
  shows "\<not> Done r
         \<and> (Type r = typeResourceGroup \<longrightarrow> Blocks r = [])
         \<and> (Type r \<noteq> typeResourceGroup \<longrightarrow>
               toKey typeResourceGroup (resourceGroupName g) \<in> set (Blocks r))"
proof -
  from appendEach_mem [OF assms [unfolded listAll_def]] obtain fn ys where
    fn: "fn \<in> set (fns az)" and ys: "fn g = Inr ys" and m: "r \<in> set ys"
    by blast
  from fn consider
      "fn = listResourceGroups az" | "fn = listVirtualNetworksAndSubnets az"
    | "fn = listNetworkSecurityGroups" | "fn = listRouteTables az"
    | "fn = listVMScaleSetsAndRoleAssignments az" | "fn = listDisks az"
    | "fn = listLoadBalancers az" | "fn = listPublicIPAddresses az"
    unfolding fns_def by auto
  then show ?thesis
  proof cases
    case 1
    with ys m listResourceGroups_emits [of az g ys r] show ?thesis by simp
  next
    case 2
    with ys m listVirtualNetworksAndSubnets_emits [of az g ys r] show ?thesis by auto
  next
    case 3
    with ys m listNetworkSecurityGroups_emits [of g ys r] show ?thesis by simp
  next
    case 4
    with ys m listRouteTables_emits [of az g ys r] show ?thesis by simp
  next
    case 5
    with ys m listVMScaleSetsAndRoleAssignments_emits [of az g ys r] show ?thesis by auto
  next
    case 6
    with ys m listDisks_emits [of az g ys r] show ?thesis by simp
  next
    case 7
    with ys m listLoadBalancers_emits [of az g ys r] show ?thesis by simp
  next
    case 8
    with ys m listPublicIPAddresses_emits [of az g ys r] show ?thesis by simp
  qed
qed


lemma listResourcesAzure_Inr:
  "listResourcesAzure az g = Inr m \<longleftrightarrow> (\<exists>rs. listAll az g = Inr rs \<and> m = keyed rs Map.empty)"
  by (auto simp: listResourcesAzure_def split: sum.splits)

subsection \<open>The example cluster, evaluated\<close>

lemmas example_defs =
  exampleAzure_def ownedTags_def exampleInfo_def exampleGroup_def vnetA_def vnetB_def
  vnetOther_def subnetDefault_def exampleVMSS_def exampleDisk_def ra1_def ra2_def ra3_def
  exampleLB_def examplePIP_def exampleCloud_def exampleGetter_def failingGetter_def
  resGroup_def resVnetA_def resSubnetA_def resVnetB_def resSubnetB_def resVMSS_def
  resRA1_def resDisk_def resLB_def resPIP_def

lemmas res_defs =
  resGroup_def resVnetA_def resSubnetA_def resVnetB_def resSubnetB_def resVMSS_def
  resRA1_def resDisk_def resLB_def resPIP_def

lemma example_listResourceGroups:
  "listResourceGroups exampleAzure exampleGetter = Inr [resGroup]"
  by (simp add: listResourceGroups_def toResourceGroupResource_def deref_def resourceGroupName_def
      toKey_def example_defs type_defs)

lemma example_listVirtualNetworksAndSubnets:
  "listVirtualNetworksAndSubnets exampleAzure exampleGetter
     = Inr [resVnetA, resSubnetA, resVnetB, resSubnetB]"
  by (simp add: listVirtualNetworksAndSubnets_def vnetAndSubnets_def toVirtualNetworkResource_def
      listSubnets_def toSubnetResource_def deref_def resourceGroupName_def
      toKey_def example_defs type_defs)

lemma example_listNetworkSecurityGroups:
  "listNetworkSecurityGroups exampleGetter = Inr []"
  by (simp add: listNetworkSecurityGroups_def example_defs)

lemma example_listRouteTables:
  "listRouteTables exampleAzure exampleGetter = Inr []"
  by (simp add: listRouteTables_def example_defs)

lemma example_listVMScaleSetsAndRoleAssignments:
  "listVMScaleSetsAndRoleAssignments exampleAzure exampleGetter = Inr [resVMSS, resRA1]"
  by (simp add: listVMScaleSetsAndRoleAssignments_def toVMScaleSetResource_def vmDiskKeys_def
      listRoleAssignments_def toRoleAssignmentResource_def addName_def
      deref_def resourceGroupName_def toKey_def example_defs type_defs)

lemma example_listDisks:
  "listDisks exampleAzure exampleGetter = Inr [resDisk]"
  by (simp add: listDisks_def toDiskResource_def deref_def resourceGroupName_def
      toKey_def example_defs type_defs)

lemma example_listLoadBalancers:
  "listLoadBalancers exampleAzure exampleGetter = Inr [resLB]"
  by (simp add: listLoadBalancers_def toLoadBalancerResource_def addName_def deref_def
      resourceGroupName_def toKey_def example_defs type_defs)

lemma example_listPublicIPAddresses:
  "listPublicIPAddresses exampleAzure exampleGetter = Inr [resPIP]"
  by (simp add: listPublicIPAddresses_def toPublicIPAddressResource_def deref_def
      resourceGroupName_def toKey_def example_defs type_defs)

lemma example_listAll:
  "listAll exampleAzure exampleGetter
     = Inr [resGroup, resVnetA, resSubnetA, resVnetB, resSubnetB, resVMSS, resRA1,
            resDisk, resLB, resPIP]"
  by (simp add: listAll_def fns_def example_listResourceGroups
      example_listVirtualNetworksAndSubnets example_listNetworkSecurityGroups
      example_listRouteTables example_listVMScaleSetsAndRoleAssignments example_listDisks
      example_listLoadBalancers example_listPublicIPAddresses)

lemma example_listResourcesAzure:
  "listResourcesAzure exampleAzure exampleGetter
     = Inr (keyed [resGroup, resVnetA, resSubnetA, resVnetB, resSubnetB, resVMSS, resRA1,
                   resDisk, resLB, resPIP] Map.empty)"
  by (simp only: listResourcesAzure_def example_listAll sum.case)

lemma failing_listResourceGroups:
  "listResourceGroups exampleAzure failingGetter = Inr [resGroup]"
  by (simp add: listResourceGroups_def toResourceGroupResource_def deref_def resourceGroupName_def
      toKey_def example_defs type_defs)

lemma failing_listVirtualNetworksAndSubnets:
  "listVirtualNetworksAndSubnets exampleAzure failingGetter
     = Inr [resVnetA, resSubnetA, resVnetB, resSubnetB]"
  by (simp add: listVirtualNetworksAndSubnets_def vnetAndSubnets_def toVirtualNetworkResource_def
      listSubnets_def toSubnetResource_def deref_def resourceGroupName_def
      toKey_def example_defs type_defs)

lemma failing_listNetworkSecurityGroups:
  "listNetworkSecurityGroups failingGetter = Inr []"
  by (simp add: listNetworkSecurityGroups_def example_defs)

lemma failing_listRouteTables:
  "listRouteTables exampleAzure failingGetter = Inr []"
  by (simp add: listRouteTables_def example_defs)

lemma failing_listVMScaleSetsAndRoleAssignments:
  "listVMScaleSetsAndRoleAssignments exampleAzure failingGetter = Inr [resVMSS, resRA1]"
  by (simp add: listVMScaleSetsAndRoleAssignments_def toVMScaleSetResource_def vmDiskKeys_def
      listRoleAssignments_def toRoleAssignmentResource_def addName_def
      deref_def resourceGroupName_def toKey_def example_defs type_defs)

lemma failing_listDisks:
  "listDisks exampleAzure failingGetter = Inl (Error ''throttled'')"
  by (simp add: listDisks_def resourceGroupName_def example_defs)


section \<open>The claims\<close>

subsection \<open>C1\<close>




subsection \<open>C2\<close>

text \<open>
  C2. The claim: when the listing of one resource kind fails, the resources of the
  other kinds are still processed and the error is returned alongside the partial
  results.

  On the code the first failing listing ends \<open>listAll\<close>: it returns that error and no
  resources (\<open>return nil, err\<close>), what the earlier kinds listed is discarded and the later
  kinds are not listed; \<open>listResourcesAzure\<close> returns the same error and no map.
  The amended statement: if the listings before \<open>fn\<close> in \<open>fns\<close> succeed and \<open>fn\<close> returns
  the error \<open>e\<close>, then \<open>listAll\<close> and \<open>listResourcesAzure\<close> return \<open>e\<close>.
\<close>

theorem listing_error_aborts:
  assumes "fns az = pre @ fn # post"
    and "\<forall>f\<in>set pre. \<exists>ys. f g = Inr ys"
    and "fn g = Inl e"
  shows "listAll az g = Inl e \<and> listResourcesAzure az g = Inl e"
proof -
  have "appendEach (\<lambda>f. f g) (pre @ fn # post) = Inl e"
    using assms(2)
  proof (induction pre)
    case Nil
    with assms(3) show ?case by simp
  next
    case (Cons f pre)
    then obtain ys where "f g = Inr ys" by auto
    with Cons show ?case by simp
  qed
  with assms(1) show ?thesis
    by (simp add: listAll_def listResourcesAzure_def)
qed

text \<open>
  The theorem at the cluster whose disk listing is refused: the five listings before
  \<open>listDisks\<close> succeed, and the whole listing is the disk listing's error.
\<close>

theorem listing_error_aborts_witness:
  "fns exampleAzure =
     [listResourceGroups exampleAzure, listVirtualNetworksAndSubnets exampleAzure,
      listNetworkSecurityGroups, listRouteTables exampleAzure,
      listVMScaleSetsAndRoleAssignments exampleAzure]
     @ listDisks exampleAzure
     # [listLoadBalancers exampleAzure, listPublicIPAddresses exampleAzure]
   \<and> listVMScaleSetsAndRoleAssignments exampleAzure failingGetter = Inr [resVMSS, resRA1]
   \<and> listDisks exampleAzure failingGetter = Inl (Error ''throttled'')
   \<and> listAll exampleAzure failingGetter = Inl (Error ''throttled'')
   \<and> listResourcesAzure exampleAzure failingGetter = Inl (Error ''throttled'')"
proof -
  have f: "fns exampleAzure =
     [listResourceGroups exampleAzure, listVirtualNetworksAndSubnets exampleAzure,
      listNetworkSecurityGroups, listRouteTables exampleAzure,
      listVMScaleSetsAndRoleAssignments exampleAzure]
     @ listDisks exampleAzure
     # [listLoadBalancers exampleAzure, listPublicIPAddresses exampleAzure]"
    by (simp add: fns_def)
  have p: "\<forall>f\<in>set [listResourceGroups exampleAzure, listVirtualNetworksAndSubnets exampleAzure,
      listNetworkSecurityGroups, listRouteTables exampleAzure,
      listVMScaleSetsAndRoleAssignments exampleAzure]. \<exists>ys. f failingGetter = Inr ys"
    by (simp add: failing_listResourceGroups
      failing_listVirtualNetworksAndSubnets failing_listNetworkSecurityGroups
      failing_listRouteTables failing_listVMScaleSetsAndRoleAssignments)
  from listing_error_aborts [OF f p failing_listDisks] f
  show ?thesis
    by (simp only: failing_listVMScaleSetsAndRoleAssignments failing_listDisks simp_thms)
qed

text \<open>
  The claim as stated fails there: the resource groups, the networks and the subnets
  are listed, the disks are not, and the result of the whole is the error alone.
\<close>

theorem partial_results_counterexample:
  "listResourceGroups exampleAzure failingGetter = Inr [resGroup]
   \<and> listVirtualNetworksAndSubnets exampleAzure failingGetter
        = Inr [resVnetA, resSubnetA, resVnetB, resSubnetB]
   \<and> listDisks exampleAzure failingGetter = Inl (Error ''throttled'')
   \<and> listAll exampleAzure failingGetter = Inl (Error ''throttled'')
   \<and> listResourcesAzure exampleAzure failingGetter = Inl (Error ''throttled'')"
  by (simp add: listResourcesAzure_def listAll_def fns_def failing_listResourceGroups
      failing_listVirtualNetworksAndSubnets failing_listNetworkSecurityGroups
      failing_listRouteTables failing_listVMScaleSetsAndRoleAssignments failing_listDisks)

subsection \<open>C3\<close>

text \<open>
  C3. Given a tag map (its keys distinct, as those of any Go map) and the cluster,
  \<open>isOwnedByCluster\<close> returns true if and only if the tag whose key is \<open>TagClusterName\<close>
  has a value equal to the cluster's name; on a map without nil values it always returns,
  and its result is that truth value. The comparison is equality of strings. The function
  has no effect: its only outcome is the value it returns.
\<close>

theorem ownership_exact:
  assumes "distinct (map fst tags)"
  shows "(isOwnedByCluster az g tags = Inr True \<longleftrightarrow>
            (\<exists>v. (TagClusterName az, Some v) \<in> set tags \<and> v = ClusterInfo_Name (clusterInfo g)))
       \<and> (None \<notin> snd ` set tags \<longrightarrow>
            isOwnedByCluster az g tags =
              Inr (\<exists>v. (TagClusterName az, Some v) \<in> set tags \<and>
                       v = ClusterInfo_Name (clusterInfo g)))"
proof -
  have iff: "isOwnedByCluster az g tags = Inr True \<longleftrightarrow>
               (TagClusterName az, Some (ClusterInfo_Name (clusterInfo g))) \<in> set tags"
    using isOwned_True_mem isOwned_mem_True [OF assms] by blast
  have "isOwnedByCluster az g tags =
          Inr ((TagClusterName az, Some (ClusterInfo_Name (clusterInfo g))) \<in> set tags)"
    if "None \<notin> snd ` set tags"
  proof -
    from isOwned_total [OF that] obtain b where b: "isOwnedByCluster az g tags = Inr b" ..
    with iff show ?thesis by (cases b) auto
  qed
  with iff show ?thesis by simp
qed

text \<open>
  Cluster \<open>c1\<close> owns what is tagged \<open>c1\<close>, and does not own what is tagged \<open>c10\<close>.
\<close>

theorem ownership_exact_witness:
  "distinct (map fst ownedTags) \<and> None \<notin> snd ` set ownedTags
   \<and> isOwnedByCluster exampleAzure exampleGetter ownedTags = Inr True
   \<and> (''KubernetesCluster'', Some ''c1'') \<in> set ownedTags
   \<and> distinct (map fst [(''KubernetesCluster'', Some ''c10'')])
   \<and> isOwnedByCluster exampleAzure exampleGetter [(''KubernetesCluster'', Some ''c10'')] = Inr False"
proof -
  have d1: "distinct (map fst ownedTags)" by (simp add: ownedTags_def)
  have d2: "distinct (map fst [(''KubernetesCluster'', Some ''c10'')])" by simp
  from ownership_exact [OF d1, of exampleAzure exampleGetter]
       ownership_exact [OF d2, of exampleAzure exampleGetter]
  show ?thesis
    by (simp add: example_defs)
qed

subsection \<open>C4\<close>

text \<open>
  C4. When \<open>listVirtualNetworksAndSubnets\<close> returns the slice \<open>rs\<close>: for every network of
  the cloud's answer that passes the ownership filter, every subnet the cloud lists for
  that network has a descriptor in \<open>rs\<close> (no tag of the subnet is looked at), whose
  \<open>Blocks\<close> is the key of the parent network followed by the key of the resource group;
  and every subnet descriptor of \<open>rs\<close> has such \<open>Blocks\<close>, for an owned network.
\<close>

theorem subnets_of_owned_network:
  assumes "listVirtualNetworksAndSubnets az g = Inr rs"
    and "VirtualNetwork_List (cloud g) (resourceGroupName g) = Inr vnets"
  shows "(\<forall>vnet\<in>set vnets.
            isOwnedByCluster az g (VirtualNetwork_Tags vnet) = Inr True \<longrightarrow>
            (\<exists>n subnets.
               VirtualNetwork_Name vnet = Some n \<and>
               Subnet_List (cloud g) (resourceGroupName g) n = Inr subnets \<and>
               (\<forall>sn\<in>set subnets. \<exists>r\<in>set rs.
                  Obj r = ObjSubnet sn \<and> Type r = typeSubnet \<and> Subnet_Name sn = Some (ID r) \<and>
                  Blocks r = [toKey typeVirtualNetwork n,
                              toKey typeResourceGroup (resourceGroupName g)])))
       \<and> (\<forall>r\<in>set rs. Type r = typeSubnet \<longrightarrow>
            (\<exists>vnet\<in>set vnets. \<exists>n.
               isOwnedByCluster az g (VirtualNetwork_Tags vnet) = Inr True \<and>
               VirtualNetwork_Name vnet = Some n \<and>
               Blocks r = [toKey typeVirtualNetwork n,
                           toKey typeResourceGroup (resourceGroupName g)]))"
proof (intro conjI ballI impI)
  from assms have l: "appendEach (vnetAndSubnets az g) vnets = Inr rs"
    unfolding listVirtualNetworksAndSubnets_Inr by auto
  {
    fix vnet
    assume v: "vnet \<in> set vnets"
      and own: "isOwnedByCluster az g (VirtualNetwork_Tags vnet) = Inr True"
    from appendEach_sub [OF l v] obtain ys where
      b: "vnetAndSubnets az g vnet = Inr ys" and sub: "set ys \<subseteq> set rs"
      by blast
    from vnetAndSubnets_Inr [OF b] own obtain r0 n rsub where
      n: "VirtualNetwork_Name vnet = Some n" and
      ls: "listSubnets g n = Inr rsub" and ys: "ys = r0 # rsub"
      by auto
    from ls obtain sns where
      sl: "Subnet_List (cloud g) (resourceGroupName g) n = Inr sns" and
      al: "appendEach (\<lambda>sn. case toSubnetResource g sn n of
                               Inl e \<Rightarrow> Inl e
                             | Inr r \<Rightarrow> Inr [r]) sns = Inr rsub"
      unfolding listSubnets_Inr by blast
    have "\<exists>r\<in>set rs.
                Obj r = ObjSubnet sn \<and> Type r = typeSubnet \<and> Subnet_Name sn = Some (ID r) \<and>
                Blocks r = [toKey typeVirtualNetwork n,
                            toKey typeResourceGroup (resourceGroupName g)]"
      if "sn \<in> set sns" for sn
    proof -
      from appendEach_sub [OF al that] obtain zs where
        z: "(case toSubnetResource g sn n of Inl e \<Rightarrow> Inl e | Inr r \<Rightarrow> Inr [r]) = Inr zs"
        and zsub: "set zs \<subseteq> set rsub"
        by blast
      from z obtain r where r: "toSubnetResource g sn n = Inr r" and zs: "zs = [r]"
        by (cases "toSubnetResource g sn n") auto
      from zs zsub ys sub have "r \<in> set rs" by auto
      with toSubnetResource_Inr [OF r] show ?thesis by blast
    qed
    with n sl show "\<exists>n subnets.
               VirtualNetwork_Name vnet = Some n \<and>
               Subnet_List (cloud g) (resourceGroupName g) n = Inr subnets \<and>
               (\<forall>sn\<in>set subnets. \<exists>r\<in>set rs.
                  Obj r = ObjSubnet sn \<and> Type r = typeSubnet \<and> Subnet_Name sn = Some (ID r) \<and>
                  Blocks r = [toKey typeVirtualNetwork n,
                              toKey typeResourceGroup (resourceGroupName g)])"
      by blast
  }
  {
    fix r
    assume m: "r \<in> set rs" and t: "Type r = typeSubnet"
    from appendEach_mem [OF l m] obtain vnet ys where
      v: "vnet \<in> set vnets" and b: "vnetAndSubnets az g vnet = Inr ys" and my: "r \<in> set ys"
      by blast
    from vnetAndSubnets_Inr [OF b] my obtain r0 n subnets where
      own: "isOwnedByCluster az g (VirtualNetwork_Tags vnet) = Inr True" and
      r0: "toVirtualNetworkResource az g vnet = Inr r0" and
      n: "VirtualNetwork_Name vnet = Some n" and
      sn: "listSubnets g n = Inr subnets" and ys: "ys = r0 # subnets"
      by auto
    from toVirtualNetworkResource_Inr [OF r0] t typeSubnet_neq_typeVirtualNetwork
    have "r \<noteq> r0" by auto
    with my ys have "r \<in> set subnets" by simp
    from listSubnets_emits [OF sn this] obtain s where "toSubnetResource g s n = Inr r" ..
    from toSubnetResource_Inr [OF this] v own n
    show "\<exists>vnet\<in>set vnets. \<exists>n.
               isOwnedByCluster az g (VirtualNetwork_Tags vnet) = Inr True \<and>
               VirtualNetwork_Name vnet = Some n \<and>
               Blocks r = [toKey typeVirtualNetwork n,
                           toKey typeResourceGroup (resourceGroupName g)]"
      by blast
  }
qed

text \<open>
  The theorem at the example: the subnet of the owned network \<open>vnetB\<close> is in the slice.
\<close>

theorem subnets_of_owned_network_witness:
  "listVirtualNetworksAndSubnets exampleAzure exampleGetter
     = Inr [resVnetA, resSubnetA, resVnetB, resSubnetB]
   \<and> VirtualNetwork_List (cloud exampleGetter) (resourceGroupName exampleGetter)
        = Inr [vnetA, vnetB, vnetOther]
   \<and> isOwnedByCluster exampleAzure exampleGetter (VirtualNetwork_Tags vnetB) = Inr True
   \<and> Subnet_List (cloud exampleGetter) (resourceGroupName exampleGetter) ''vnetB''
        = Inr [subnetDefault]
   \<and> (\<exists>r\<in>set [resVnetA, resSubnetA, resVnetB, resSubnetB].
         Obj r = ObjSubnet subnetDefault \<and> Type r = typeSubnet \<and>
         Blocks r = [toKey typeVirtualNetwork ''vnetB'',
                     toKey typeResourceGroup (resourceGroupName exampleGetter)])
   \<and> Blocks resSubnetA = [''VirtualNetwork:vnetA'', ''ResourceGroup:rg1'']"
proof -
  have l: "VirtualNetwork_List (cloud exampleGetter) (resourceGroupName exampleGetter)
        = Inr [vnetA, vnetB, vnetOther]"
    by (simp add: example_defs)
  have o: "isOwnedByCluster exampleAzure exampleGetter (VirtualNetwork_Tags vnetB) = Inr True"
    by (simp add: example_defs)
  have n: "VirtualNetwork_Name vnetB = Some ''vnetB''"
    by (simp add: vnetB_def)
  have s: "Subnet_List (cloud exampleGetter) (resourceGroupName exampleGetter) ''vnetB''
        = Inr [subnetDefault]"
    by (simp add: example_defs)
  note t = subnets_of_owned_network [OF example_listVirtualNetworksAndSubnets l]
  from t o have "\<exists>n subnets.
               VirtualNetwork_Name vnetB = Some n \<and>
               Subnet_List (cloud exampleGetter) (resourceGroupName exampleGetter) n = Inr subnets \<and>
               (\<forall>sn\<in>set subnets. \<exists>r\<in>set [resVnetA, resSubnetA, resVnetB, resSubnetB].
                  Obj r = ObjSubnet sn \<and> Type r = typeSubnet \<and> Subnet_Name sn = Some (ID r) \<and>
                  Blocks r = [toKey typeVirtualNetwork n,
                              toKey typeResourceGroup (resourceGroupName exampleGetter)])"
    by simp
  with n s have 1: "\<exists>r\<in>set [resVnetA, resSubnetA, resVnetB, resSubnetB].
         Obj r = ObjSubnet subnetDefault \<and> Type r = typeSubnet \<and>
         Blocks r = [toKey typeVirtualNetwork ''vnetB'',
                     toKey typeResourceGroup (resourceGroupName exampleGetter)]"
    by auto
  have 2: "Blocks resSubnetA = [''VirtualNetwork:vnetA'', ''ResourceGroup:rg1'']"
    by (simp add: resSubnetA_def)
  from example_listVirtualNetworksAndSubnets l o s 1 2 show ?thesis by blast
qed

subsection \<open>C5\<close>

text \<open>
  C5. Every descriptor of the map \<open>listResourcesAzure\<close> returns is stored under the key
  \<open>Type + ":" + ID\<close> of that descriptor.
\<close>

theorem stored_under_own_key:
  assumes "listResourcesAzure az g = Inr m" and "m k = Some r"
  shows "k = toKey (Type r) (ID r) \<and> k = Type r @ '':'' @ ID r"
proof -
  from assms(1) obtain rs where "m = keyed rs Map.empty"
    unfolding listResourcesAzure_Inr by blast
  with assms(2) keyed_Some [of rs Map.empty k r] show ?thesis
    by (simp add: toKey_def)
qed

text \<open>
  The theorem at the example's disk.
\<close>

theorem stored_under_own_key_witness:
  "listResourcesAzure exampleAzure exampleGetter
     = Inr (keyed [resGroup, resVnetA, resSubnetA, resVnetB, resSubnetB, resVMSS, resRA1,
                   resDisk, resLB, resPIP] Map.empty)
   \<and> keyed [resGroup, resVnetA, resSubnetA, resVnetB, resSubnetB, resVMSS, resRA1,
            resDisk, resLB, resPIP] Map.empty ''Disk:d1'' = Some resDisk
   \<and> ''Disk:d1'' = Type resDisk @ '':'' @ ID resDisk"
proof -
  have k: "keyed [resGroup, resVnetA, resSubnetA, resVnetB, resSubnetB, resVMSS, resRA1,
            resDisk, resLB, resPIP] Map.empty ''Disk:d1'' = Some resDisk"
    by (simp add: res_defs toKey_def)
  from stored_under_own_key [OF example_listResourcesAzure k] example_listResourcesAzure k
  show ?thesis by blast
qed

subsection \<open>C6\<close>

text \<open>
  C6. No entry of the keyed map has \<open>Done\<close> set: neither for the loop run on any slice
  of descriptors, nor for the map \<open>listResourcesAzure\<close> returns.
\<close>

theorem done_dropped:
  "(\<forall>k r. keyed rs Map.empty k = Some r \<longrightarrow> \<not> Done r)
   \<and> (\<forall>m k r. listResourcesAzure az g = Inr m \<longrightarrow> m k = Some r \<longrightarrow> \<not> Done r)"
proof (intro conjI allI impI)
  fix k r
  assume "keyed rs Map.empty k = Some r"
  from keyed_Some [OF this] show "\<not> Done r" by simp
next
  fix m k r
  assume "listResourcesAzure az g = Inr m" "m k = Some r"
  then obtain rs' where "keyed rs' Map.empty k = Some r"
    unfolding listResourcesAzure_Inr by blast
  from keyed_Some [OF this] show "\<not> Done r" by simp
qed

text \<open>
  The loop on a slice whose first descriptor is done: that one is dropped, the other kept.
\<close>

theorem done_dropped_witness:
  "Done (resDisk\<lparr>Done := True\<rparr>)
   \<and> keyed [resDisk\<lparr>Done := True\<rparr>, resPIP] Map.empty ''Disk:d1'' = None
   \<and> keyed [resDisk\<lparr>Done := True\<rparr>, resPIP] Map.empty ''PublicIPAddress:pip1'' = Some resPIP
   \<and> \<not> Done resPIP"
proof -
  have k: "keyed [resDisk\<lparr>Done := True\<rparr>, resPIP] Map.empty ''PublicIPAddress:pip1'' = Some resPIP"
    by (simp add: res_defs toKey_def)
  have n: "keyed [resDisk\<lparr>Done := True\<rparr>, resPIP] Map.empty ''Disk:d1'' = None"
    by (simp add: res_defs toKey_def)
  from done_dropped [of "[resDisk\<lparr>Done := True\<rparr>, resPIP]" exampleAzure exampleGetter] k
  have "\<not> Done resPIP" by blast
  with k n show ?thesis by simp
qed

subsection \<open>C7\<close>

text \<open>
  C7. When two descriptors of the listing have the same key, the map binds the key to
  the later one, and the listing does not fail: if the listing is \<open>xs @ r # ys\<close> and no
  descriptor after \<open>r\<close> has the key of \<open>r\<close>, then \<open>listResourcesAzure\<close> returns a map and
  that map binds the key of \<open>r\<close> to \<open>r\<close>, whatever \<open>xs\<close> holds under that key.
\<close>

theorem last_writer_wins:
  assumes "listAll az g = Inr (xs @ r # ys)"
    and "\<forall>y\<in>set ys. toKey (Type y) (ID y) \<noteq> toKey (Type r) (ID r)"
  shows "\<exists>m. listResourcesAzure az g = Inr m \<and> m (toKey (Type r) (ID r)) = Some r"
proof -
  from listAll_emits [OF assms(1), of r] have nd: "\<not> Done r" by simp
  have "keyed (xs @ r # ys) Map.empty (toKey (Type r) (ID r))
          = keyed ys ((keyed xs Map.empty)(toKey (Type r) (ID r) \<mapsto> r)) (toKey (Type r) (ID r))"
    using nd by (simp add: keyed_append)
  also have "\<dots> = Some r"
    using assms(2) by (simp add: keyed_other)
  finally show ?thesis
    using assms(1) by (simp add: listResourcesAzure_def)
qed

text \<open>
  The example's two subnets named \<open>default\<close> have one key; the map holds the later one,
  the subnet of \<open>vnetB\<close>.
\<close>

theorem last_writer_wins_witness:
  "listAll exampleAzure exampleGetter
     = Inr ([resGroup, resVnetA, resSubnetA, resVnetB] @ resSubnetB
            # [resVMSS, resRA1, resDisk, resLB, resPIP])
   \<and> toKey (Type resSubnetA) (ID resSubnetA) = toKey (Type resSubnetB) (ID resSubnetB)
   \<and> resSubnetA \<noteq> resSubnetB
   \<and> (\<exists>m. listResourcesAzure exampleAzure exampleGetter = Inr m
          \<and> m ''Subnet:default'' = Some resSubnetB)"
proof -
  have l: "listAll exampleAzure exampleGetter
     = Inr ([resGroup, resVnetA, resSubnetA, resVnetB] @ resSubnetB
            # [resVMSS, resRA1, resDisk, resLB, resPIP])"
    using example_listAll by simp
  have h: "\<forall>y\<in>set [resVMSS, resRA1, resDisk, resLB, resPIP].
             toKey (Type y) (ID y) \<noteq> toKey (Type resSubnetB) (ID resSubnetB)"
    by (simp add: res_defs toKey_def)
  have k: "toKey (Type resSubnetB) (ID resSubnetB) = ''Subnet:default''"
    by (simp add: res_defs toKey_def)
  have e: "toKey (Type resSubnetA) (ID resSubnetA) = toKey (Type resSubnetB) (ID resSubnetB)"
    by (simp add: res_defs)
  have d: "resSubnetA \<noteq> resSubnetB"
    by (simp add: res_defs)
  from last_writer_wins [OF l h] k l e d show ?thesis by simp
qed

subsection \<open>C8\<close>

text \<open>
  C8. When \<open>listVMScaleSetsAndRoleAssignments\<close> returns the slice \<open>rs\<close>: a role assignment
  of the cloud's answer has a descriptor in \<open>rs\<close> if and only if its \<open>PrincipalID\<close> is not
  nil and is the principal ID of a scale set that passes the ownership filter; and the
  \<open>Blocks\<close> of every role-assignment descriptor of \<open>rs\<close> is the key of the resource group
  followed by the key of such a scale set.
\<close>

theorem role_assignment_emitted_iff:
  assumes "listVMScaleSetsAndRoleAssignments az g = Inr rs"
    and "VMScaleSet_List (cloud g) (resourceGroupName g) = Inr vmsses"
    and "RoleAssignment_List (cloud g) (resourceGroupName g) = Inr ras"
  shows "(\<forall>ra\<in>set ras.
            (\<exists>r\<in>set rs. Obj r = ObjRoleAssignment ra) \<longleftrightarrow>
            (\<exists>p. RoleAssignment_PrincipalID ra = Some p \<and>
               (\<exists>vmss\<in>set vmsses. \<exists>ident.
                  isOwnedByCluster az g (VMSS_Tags vmss) = Inr True \<and>
                  VMSS_Identity vmss = Some ident \<and> Identity_PrincipalID ident = Some p)))
       \<and> (\<forall>r\<in>set rs. Type r = typeRoleAssignment \<longrightarrow>
            (\<exists>ra\<in>set ras. \<exists>vmss\<in>set vmsses. \<exists>p ident n.
               Obj r = ObjRoleAssignment ra \<and>
               RoleAssignment_PrincipalID ra = Some p \<and>
               isOwnedByCluster az g (VMSS_Tags vmss) = Inr True \<and>
               VMSS_Identity vmss = Some ident \<and> Identity_PrincipalID ident = Some p \<and>
               VMSS_Name vmss = Some n \<and>
               Blocks r = [toKey typeResourceGroup (resourceGroupName g),
                           toKey typeVMScaleSet n]))"
proof -
  from assms(1,2) obtain vs pids rras where
    loop: "vmssLoop az g vmsses Map.empty = Inr (vs, pids)" and
    lra: "listRoleAssignments g pids = Inr rras" and rs: "rs = vs @ rras"
    unfolding listVMScaleSetsAndRoleAssignments_Inr by auto
  have emitted: "\<exists>ra\<in>set ras. \<exists>vmss\<in>set vmsses. \<exists>p ident n.
               Obj r = ObjRoleAssignment ra \<and>
               RoleAssignment_PrincipalID ra = Some p \<and>
               isOwnedByCluster az g (VMSS_Tags vmss) = Inr True \<and>
               VMSS_Identity vmss = Some ident \<and> Identity_PrincipalID ident = Some p \<and>
               VMSS_Name vmss = Some n \<and>
               Blocks r = [toKey typeResourceGroup (resourceGroupName g),
                           toKey typeVMScaleSet n]"
    if "r \<in> set rras" for r
  proof -
    from listRoleAssignments_emits [OF lra that] assms(3) obtain ra p vmss where
      ra: "ra \<in> set ras" and p: "RoleAssignment_PrincipalID ra = Some p" and
      v: "pids p = Some vmss" and r: "toRoleAssignmentResource g ra vmss = Inr r"
      by auto
    from vmssLoop_principalIDs_Some [OF loop v] obtain ident where
      "vmss \<in> set vmsses" "isOwnedByCluster az g (VMSS_Tags vmss) = Inr True"
      "VMSS_Identity vmss = Some ident" "Identity_PrincipalID ident = Some p"
      by auto
    with toRoleAssignmentResource_Inr [OF r] ra p show ?thesis by blast
  qed
  have fwd: "\<exists>p. RoleAssignment_PrincipalID ra = Some p \<and>
               (\<exists>vmss\<in>set vmsses. \<exists>ident.
                  isOwnedByCluster az g (VMSS_Tags vmss) = Inr True \<and>
                  VMSS_Identity vmss = Some ident \<and> Identity_PrincipalID ident = Some p)"
    if "r \<in> set rs" "Obj r = ObjRoleAssignment ra" for r ra
  proof -
    have "r \<notin> set vs"
    proof
      assume "r \<in> set vs"
      from vmssLoop_emits [OF loop this] that(2) show False by auto
    qed
    with that(1) rs have "r \<in> set rras" by simp
    from emitted [OF this] that(2) show ?thesis by auto
  qed
  have bwd: "\<exists>r\<in>set rs. Obj r = ObjRoleAssignment ra"
    if "ra \<in> set ras" "RoleAssignment_PrincipalID ra = Some p"
       "vmss \<in> set vmsses" "isOwnedByCluster az g (VMSS_Tags vmss) = Inr True"
       "VMSS_Identity vmss = Some ident" "Identity_PrincipalID ident = Some p"
    for ra p vmss ident
  proof -
    from that have "pids p \<noteq> None"
      by (intro vmssLoop_principalIDs_dom [OF loop]) blast
    then obtain v where v: "pids p = Some v" by auto
    from listRoleAssignments_covers [OF lra assms(3) that(1,2) v] obtain r where
      "r \<in> set rras" "toRoleAssignmentResource g ra v = Inr r"
      by blast
    with toRoleAssignmentResource_Inr [of g ra v r] rs show ?thesis by auto
  qed
  have typed: "r \<in> set rras" if "r \<in> set rs" "Type r = typeRoleAssignment" for r
  proof -
    have "r \<notin> set vs"
    proof
      assume "r \<in> set vs"
      from vmssLoop_emits [OF loop this] that(2) typeRoleAssignment_neq_typeVMScaleSet
      show False by simp
    qed
    with that(1) rs show ?thesis by simp
  qed
  show ?thesis
  proof (intro conjI ballI impI iffI)
    fix ra
    assume "ra \<in> set ras" "\<exists>r\<in>set rs. Obj r = ObjRoleAssignment ra"
    with fwd show "\<exists>p. RoleAssignment_PrincipalID ra = Some p \<and>
               (\<exists>vmss\<in>set vmsses. \<exists>ident.
                  isOwnedByCluster az g (VMSS_Tags vmss) = Inr True \<and>
                  VMSS_Identity vmss = Some ident \<and> Identity_PrincipalID ident = Some p)"
      by blast
  next
    fix ra
    assume "ra \<in> set ras" "\<exists>p. RoleAssignment_PrincipalID ra = Some p \<and>
               (\<exists>vmss\<in>set vmsses. \<exists>ident.
                  isOwnedByCluster az g (VMSS_Tags vmss) = Inr True \<and>
                  VMSS_Identity vmss = Some ident \<and> Identity_PrincipalID ident = Some p)"
    with bwd show "\<exists>r\<in>set rs. Obj r = ObjRoleAssignment ra" by blast
  next
    fix r
    assume "r \<in> set rs" "Type r = typeRoleAssignment"
    from emitted [OF typed [OF this]]
    show "\<exists>ra\<in>set ras. \<exists>vmss\<in>set vmsses. \<exists>p ident n.
               Obj r = ObjRoleAssignment ra \<and>
               RoleAssignment_PrincipalID ra = Some p \<and>
               isOwnedByCluster az g (VMSS_Tags vmss) = Inr True \<and>
               VMSS_Identity vmss = Some ident \<and> Identity_PrincipalID ident = Some p \<and>
               VMSS_Name vmss = Some n \<and>
               Blocks r = [toKey typeResourceGroup (resourceGroupName g),
                           toKey typeVMScaleSet n]" .
  qed
qed

text \<open>
  The theorem at the example: \<open>ra1\<close> has the scale set's principal and is emitted;
  \<open>ra2\<close> has none and \<open>ra3\<close> has another, and neither is emitted.
\<close>

theorem role_assignment_emitted_iff_witness:
  "listVMScaleSetsAndRoleAssignments exampleAzure exampleGetter = Inr [resVMSS, resRA1]
   \<and> VMScaleSet_List (cloud exampleGetter) (resourceGroupName exampleGetter) = Inr [exampleVMSS]
   \<and> RoleAssignment_List (cloud exampleGetter) (resourceGroupName exampleGetter)
        = Inr [ra1, ra2, ra3]
   \<and> (\<exists>r\<in>set [resVMSS, resRA1]. Obj r = ObjRoleAssignment ra1)
   \<and> \<not> (\<exists>r\<in>set [resVMSS, resRA1]. Obj r = ObjRoleAssignment ra2)
   \<and> \<not> (\<exists>r\<in>set [resVMSS, resRA1]. Obj r = ObjRoleAssignment ra3)
   \<and> Blocks resRA1 = [toKey typeResourceGroup (resourceGroupName exampleGetter),
                       toKey typeVMScaleSet ''vmss1'']"
proof -
  have v: "VMScaleSet_List (cloud exampleGetter) (resourceGroupName exampleGetter)
             = Inr [exampleVMSS]"
    by (simp add: example_defs)
  have a: "RoleAssignment_List (cloud exampleGetter) (resourceGroupName exampleGetter)
             = Inr [ra1, ra2, ra3]"
    by (simp add: example_defs)
  note t = role_assignment_emitted_iff [OF example_listVMScaleSetsAndRoleAssignments v a]
  have o: "isOwnedByCluster exampleAzure exampleGetter (VMSS_Tags exampleVMSS) = Inr True"
    by (simp add: example_defs)
  have i: "VMSS_Identity exampleVMSS = Some \<lparr>Identity_PrincipalID = Some ''p1''\<rparr>"
    by (simp add: exampleVMSS_def)
  have p1: "RoleAssignment_PrincipalID ra1 = Some ''p1''" by (simp add: ra1_def)
  have p2: "RoleAssignment_PrincipalID ra2 = None" by (simp add: ra2_def)
  have p3: "RoleAssignment_PrincipalID ra3 = Some ''p9''" by (simp add: ra3_def)
  from t o i p1 have 1: "\<exists>r\<in>set [resVMSS, resRA1]. Obj r = ObjRoleAssignment ra1"
    by simp
  from t p2 have 2: "\<not> (\<exists>r\<in>set [resVMSS, resRA1]. Obj r = ObjRoleAssignment ra2)"
    by simp
  from t i p3 have 3: "\<not> (\<exists>r\<in>set [resVMSS, resRA1]. Obj r = ObjRoleAssignment ra3)"
    by simp
  have 4: "Blocks resRA1 = [toKey typeResourceGroup (resourceGroupName exampleGetter),
                       toKey typeVMScaleSet ''vmss1'']"
    by (simp add: resRA1_def toKey_def type_defs resourceGroupName_def example_defs)
  from example_listVMScaleSetsAndRoleAssignments v a 1 2 3 4 show ?thesis by blast
qed

subsection \<open>C9\<close>



subsection \<open>C10\<close>

text \<open>
  C10. The claim: \<open>isOwnedByCluster\<close> returns on every tag map without nil values, and it
  dereferences the value pointer of each tag unconditionally.

  It does return on such maps. But Go's \<open>&&\<close> evaluates \<open>*v\<close> only after \<open>k == TagClusterName\<close>
  held, so only the value under that key is dereferenced. The amended statement: on a
  map without nil values the function returns a boolean; and (the keys being distinct) it
  faults if and only if the map binds the key \<open>TagClusterName\<close> to nil.
\<close>

theorem ownership_total:
  "(None \<notin> snd ` set tags \<longrightarrow> (\<exists>b. isOwnedByCluster az g tags = Inr b))
   \<and> (distinct (map fst tags) \<longrightarrow>
        (isOwnedByCluster az g tags = Inl NilDereference \<longleftrightarrow>
           (TagClusterName az, None) \<in> set tags))"
  using isOwned_total isOwned_Inl isOwned_nil_faults by blast

text \<open>
  The theorem at two maps: one without nil values, one with nil under \<open>TagClusterName\<close>.
\<close>

theorem ownership_total_witness:
  "None \<notin> snd ` set ownedTags
   \<and> isOwnedByCluster exampleAzure exampleGetter ownedTags = Inr True
   \<and> distinct (map fst [(''env'', Some ''prod''), (''KubernetesCluster'', None)])
   \<and> (TagClusterName exampleAzure, None)
        \<in> set [(''env'', Some ''prod''), (''KubernetesCluster'', None)]
   \<and> isOwnedByCluster exampleAzure exampleGetter
        [(''env'', Some ''prod''), (''KubernetesCluster'', None)] = Inl NilDereference"
proof -
  have n: "None \<notin> snd ` set ownedTags" by (simp add: ownedTags_def)
  have d: "distinct (map fst [(''env'', Some ''prod''), (''KubernetesCluster'', None)])" by simp
  have m: "(TagClusterName exampleAzure, None)
             \<in> set [(''env'', Some ''prod''), (''KubernetesCluster'', None)]"
    by (simp add: exampleAzure_def)
  from ownership_total [of ownedTags exampleAzure exampleGetter] n
  obtain b where b: "isOwnedByCluster exampleAzure exampleGetter ownedTags = Inr b" by blast
  have "b" using b by (simp add: example_defs)
  moreover from ownership_total
    [of "[(''env'', Some ''prod''), (''KubernetesCluster'', None)]" exampleAzure exampleGetter] d m
  have "isOwnedByCluster exampleAzure exampleGetter
        [(''env'', Some ''prod''), (''KubernetesCluster'', None)] = Inl NilDereference"
    by blast
  ultimately show ?thesis using n d m b by simp
qed

text \<open>
  The claim as stated fails on a map with a nil value under another key: that value is
  not dereferenced, and the function returns true.
\<close>

theorem ownership_nil_other_key_counterexample:
  "isOwnedByCluster exampleAzure exampleGetter
     [(''env'', None), (''KubernetesCluster'', Some ''c1'')] = Inr True"
  by (simp add: example_defs)

end
